theory Spec2Isabelle
  imports Main
begin

section \<open>Helper utilities for the external Codex CLI (amplifier/codex\_cli.py)\<close>

text \<open>
  A shallow embedding of \<^verbatim>\<open>src/amplifier/codex_cli.py\<close>. Python strings are
  \<open>string\<close>, Python's unbounded integers are \<open>int\<close>, \<open>Optional[T]\<close> is \<open>T option\<close>.
  Exceptions are values of the type \<open>error\<close>; a method that may raise returns
  \<open>error + 'a\<close> together with the state it leaves behind.
\<close>

subsection \<open>Python primitives used by the module\<close>

text \<open>Truthiness of an \<open>Optional[str]\<close>: \<open>None\<close> and the empty string are falsy.\<close>

fun truthy :: "string option \<Rightarrow> bool" where
  "truthy None = False"
| "truthy (Some s) = (s \<noteq> [])"

text \<open>\<open>a or b\<close> on strings.\<close>

definition str_or :: "string \<Rightarrow> string \<Rightarrow> string" where
  "str_or a b = (if a \<noteq> [] then a else b)"

text \<open>A \<open>bytes\<close> object, written with the characters its bytes encode. It is not a
  \<open>str\<close>: \<open>bytes + str\<close> raises \<open>TypeError\<close>.\<close>

datatype bytes = Bytes string

text \<open>Truthiness of an optional \<open>bytes\<close>: \<open>None\<close> and \<open>b""\<close> are falsy.\<close>

fun bytes_truthy :: "bytes option \<Rightarrow> bool" where
  "bytes_truthy None = False"
| "bytes_truthy (Some (Bytes b)) = (b \<noteq> [])"

text \<open>\<open>str(n)\<close> for an integer: decimal digits, with a leading minus sign.\<close>

definition digit_char :: "nat \<Rightarrow> char" where
  "digit_char d = char_of (48 + d)"

function str_nat :: "nat \<Rightarrow> string" where
  "str_nat n = (if n < 10 then [digit_char n] else str_nat (n div 10) @ [digit_char (n mod 10)])"
  by pat_completeness auto
termination
  by (relation "measure id") auto

declare str_nat.simps [simp del]

definition str_int :: "int \<Rightarrow> string" where
  "str_int i = (if i < 0 then CHR ''-'' # str_nat (nat (- i)) else str_nat (nat i))"

text \<open>\<open>sep.join(parts)\<close>.\<close>

fun join :: "string \<Rightarrow> string list \<Rightarrow> string" where
  "join sep [] = []"
| "join sep [x] = x"
| "join sep (x # y # ys) = x @ sep @ join sep (y # ys)"

text \<open>
  \<open>str.strip()\<close>: leading and trailing whitespace removed. The characters of the model
  are bytes, so the whitespace is the ASCII part of Python's: tab, line feed, vertical
  tab, form feed, carriage return, the separators 28 to 31, and space.
\<close>

definition is_space :: "char \<Rightarrow> bool" where
  "is_space c = (let n = (of_char c :: nat) in (9 \<le> n \<and> n \<le> 13) \<or> (28 \<le> n \<and> n \<le> 32))"

definition strip :: "string \<Rightarrow> string" where
  "strip s = rev (dropWhile is_space (rev (dropWhile is_space s)))"

text \<open>
  \<open>shlex.quote\<close>: the empty string is rendered as two quotes, a string of safe
  characters only (ASCII letters, digits and \<open>_@%+=:,./-\<close>) is left alone, anything
  else is wrapped in single quotes with every single quote replaced by \<open>'"'"'\<close>.
\<close>

definition safe_char :: "char \<Rightarrow> bool" where
  "safe_char c =
     (c \<in> set ''abcdefghijklmnopqrstuvwxyzABCDEFGHIJKLMNOPQRSTUVWXYZ0123456789_@%+=:,./-'')"

fun replace_quote :: "string \<Rightarrow> string" where
  "replace_quote [] = []"
| "replace_quote (c # cs) =
     (if c = CHR 0x27 then [CHR 0x27, CHR 0x22, CHR 0x27, CHR 0x22, CHR 0x27] @ replace_quote cs
      else c # replace_quote cs)"

definition quote :: "string \<Rightarrow> string" where
  "quote s =
     (if s = [] then [CHR 0x27, CHR 0x27]
      else if list_all safe_char s then s
      else [CHR 0x27] @ replace_quote s @ [CHR 0x27])"

text \<open>\<open>os.path.isabs\<close> on POSIX: the path starts with a slash.\<close>

definition isabs :: "string \<Rightarrow> bool" where
  "isabs p = (case p of [] \<Rightarrow> False | c # _ \<Rightarrow> c = CHR ''/'')"

subsection \<open>Data model\<close>

text \<open>\<open>CodexSettings\<close> (amplifier/config/codex.py). The field \<open>sandbox\<close> is a
  \<open>Path\<close> there; \<open>resolve_sandbox\<close> tests it against \<open>None\<close>, so it is optional here.\<close>

record codex_settings =
  bin :: "string option"
  sandbox :: "string option"
  default_mode :: string
  default_timeout :: "int option"

text \<open>
  The exceptions of the module. \<open>CodexExecutionError\<close> carries command, returncode,
  stdout, stderr and message. Its stdout is annotated \<open>str\<close> but nothing checks it:
  \<open>CodexExecutionError_bytes_stdout\<close> is the same exception with a \<open>bytes\<close> object as
  stdout. \<open>Uncaught\<close> stands for an exception that the module lets through (named by
  its class).
\<close>

datatype error =
    CodexUnavailableError string
  | CodexSandboxError string
  | CodexExecutionError "string list" int string string string
  | CodexExecutionError_bytes_stdout "string list" int bytes string string
  | CodexExecutionCancelled string
  | Uncaught string

text \<open>\<open>CodexExecutionError.__init__\<close>: \<open>self.message = message or "Codex execution failed"\<close>.\<close>

definition CodexExecutionError_init ::
  "string list \<Rightarrow> int \<Rightarrow> string \<Rightarrow> string \<Rightarrow> string option \<Rightarrow> error" where
  "CodexExecutionError_init command returncode out err message =
     CodexExecutionError command returncode out err
       (if truthy message then the message else ''Codex execution failed'')"

record codex_run_result =
  command :: "string list"
  returncode :: "int option"
  stdout :: string
  stderr :: string
  dry_run :: bool

text \<open>\<open>CodexRunResult.command_display\<close>, also computed inline by \<open>execute\<close>.\<close>

definition command_display :: "string list \<Rightarrow> string" where
  "command_display cmd = join '' '' (map quote cmd)"

text \<open>The keyword arguments of \<open>execute\<close>. A \<open>Path\<close> argument is given by its string,
  which is never empty; the empty string is the falsy \<open>str\<close> argument.\<close>

record run_options =
  opt_mode :: "string option"
  opt_context :: "string option"
  opt_sandbox :: "string option"
  opt_dry_run :: bool
  opt_approve :: bool
  opt_timeout :: "int option"

text \<open>A \<open>CodexCLI\<close> instance: its settings and the \<open>codex_bin\<close> override. The mutable
  field \<open>_cached_binary\<close> lives in the state.\<close>

record codex_cli =
  settings :: codex_settings
  binary_override :: "string option"

subsection \<open>The operating system, the operator and the state\<close>

text \<open>What \<open>subprocess.run\<close> does with a command: the process completes with an exit
  code and its captured streams, the timeout expires with whatever was captured, the
  executable is not found, or another \<open>OSError\<close> is raised. On POSIX the output
  attached to \<open>TimeoutExpired\<close> is \<open>bytes\<close>, also with \<open>text=True\<close>, and \<open>None\<close> when
  nothing was captured.\<close>

datatype proc_outcome =
    Completed int string string
  | TimeoutExpired "bytes option" "bytes option"
  | FileNotFoundError
  | OtherOSError

text \<open>The operator's answer to \<open>click.confirm\<close>: yes, no, or an empty line, which
  takes the default.\<close>

datatype reply = Yes | No | Blank

datatype node = Dir | File

text \<open>
  The environment of a call:
  \<^item> \<open>access_x\<close> is \<open>os.access(p, os.X_OK)\<close>, \<open>which\<close> is \<open>shutil.which\<close>;
  \<^item> \<open>run_process cmd timeout\<close> is the outcome of \<open>subprocess.run(cmd, timeout=timeout)\<close>;
  \<^item> \<open>canon\<close> is \<open>Path(p).expanduser().resolve()\<close>; the file system of the model has
    directories and files only, so it does not depend on the state;
  \<^item> \<open>can_create p\<close> says whether the system lets the directory \<open>p\<close> (and its missing
    parents) be created;
  \<^item> \<open>operator prompt\<close> is what the operator answers to a prompt.
\<close>

record env =
  access_x :: "string \<Rightarrow> bool"
  which :: "string \<Rightarrow> string option"
  run_process :: "string list \<Rightarrow> int option \<Rightarrow> proc_outcome"
  canon :: "string \<Rightarrow> string"
  can_create :: "string \<Rightarrow> bool"
  operator :: "string \<Rightarrow> reply"

text \<open>
  The state: the \<open>_cached_binary\<close> field of the instance, the nodes of the file system
  (by canonical path), the log of every \<open>subprocess.run\<close> call and the log of every
  \<open>click.confirm\<close> call (prompt and default).
\<close>

record state =
  cached_binary :: "string option"
  nodes :: "string \<Rightarrow> node option"
  spawned :: "string list list"
  prompted :: "(string \<times> bool) list"

definition spawn :: "env \<Rightarrow> string list \<Rightarrow> int option \<Rightarrow> state \<Rightarrow> proc_outcome \<times> state" where
  "spawn e cmd t s = (run_process e cmd t, s\<lparr>spawned := spawned s @ [cmd]\<rparr>)"

definition click_confirm :: "env \<Rightarrow> string \<Rightarrow> bool \<Rightarrow> state \<Rightarrow> bool \<times> state" where
  "click_confirm e prompt dflt s =
     ((case operator e prompt of Yes \<Rightarrow> True | No \<Rightarrow> False | Blank \<Rightarrow> dflt),
      s\<lparr>prompted := prompted s @ [(prompt, dflt)]\<rparr>)"

text \<open>
  \<open>Path.mkdir(parents=True, exist_ok=True)\<close>: an existing directory is accepted, an
  existing file is an \<open>OSError\<close>, a missing path is created when the system allows it.
  Only the node of the path itself is recorded; nothing in the module reads the parents.
  The error is given by its text, \<open>str(exc)\<close>.
\<close>

definition mkdir_parents_exist_ok :: "env \<Rightarrow> string \<Rightarrow> state \<Rightarrow> string + state" where
  "mkdir_parents_exist_ok e p s =
     (case nodes s p of
        Some Dir \<Rightarrow> Inr s
      | Some File \<Rightarrow> Inl (''[Errno 17] File exists: '' @ [CHR 0x27] @ p @ [CHR 0x27])
      | None \<Rightarrow>
          if can_create e p then Inr (s\<lparr>nodes := (nodes s)(p \<mapsto> Dir)\<rparr>)
          else Inl (''[Errno 13] Permission denied: '' @ [CHR 0x27] @ p @ [CHR 0x27]))"

definition is_dir :: "state \<Rightarrow> string \<Rightarrow> bool" where
  "is_dir s p = (nodes s p = Some Dir)"

subsection \<open>Discovery helpers\<close>

text \<open>\<open>CodexCLI._verify_binary\<close>: run \<open>[binary, "--version"]\<close> with \<open>check=True\<close>.
  \<open>FileNotFoundError\<close> and a non-zero exit (\<open>CalledProcessError\<close>) are raised again as
  \<open>CodexUnavailableError\<close>; nothing else is caught.\<close>

definition verify_binary :: "env \<Rightarrow> string \<Rightarrow> state \<Rightarrow> (error + string) \<times> state" where
  "verify_binary e binary s =
     (case spawn e [binary, ''--version''] None s of
        (Completed rc out err, s') \<Rightarrow>
          if rc = 0 then (Inr binary, s')
          else (Inl (CodexUnavailableError
                  (''Codex binary at '' @ [CHR 0x27] @ binary @ [CHR 0x27] @
                   '' is not executable: '' @ strip (str_or err (str_or out [])))), s')
      | (FileNotFoundError, s') \<Rightarrow> (Inl (CodexUnavailableError ''Codex binary not found''), s')
      | (TimeoutExpired _ _, s') \<Rightarrow> (Inl (Uncaught ''TimeoutExpired''), s')
      | (OtherOSError, s') \<Rightarrow> (Inl (Uncaught ''OSError''), s'))"

text \<open>\<open>CodexCLI._resolve_single_candidate\<close>: an absolute executable path is verified
  as it is; otherwise the name is searched with \<open>shutil.which\<close> and the path found is
  verified; otherwise the result is \<open>None\<close>.\<close>

definition resolve_single_candidate ::
  "env \<Rightarrow> string \<Rightarrow> state \<Rightarrow> (error + string option) \<times> state" where
  "resolve_single_candidate e candidate s =
     (if isabs candidate \<and> access_x e candidate then
        (case verify_binary e candidate s of
           (Inl x, s') \<Rightarrow> (Inl x, s')
         | (Inr b, s') \<Rightarrow> (Inr (Some b), s'))
      else if truthy (which e candidate) then
        (case verify_binary e (the (which e candidate)) s of
           (Inl x, s') \<Rightarrow> (Inl x, s')
         | (Inr b, s') \<Rightarrow> (Inr (Some b), s'))
      else (Inr None, s))"

text \<open>The candidate list of \<open>resolve_binary\<close>: the override, the configured binary
  unless already listed, and \<open>"codex"\<close> unless already listed.\<close>

definition candidates :: "codex_cli \<Rightarrow> string list" where
  "candidates cli =
     (let c0 = [];
          c1 = (if truthy (binary_override cli) then c0 @ [the (binary_override cli)] else c0);
          c2 = (if truthy (bin (settings cli)) \<and> the (bin (settings cli)) \<notin> set c1
                then c1 @ [the (bin (settings cli))] else c1);
          c3 = (if ''codex'' \<notin> set c2 then c2 @ [''codex''] else c2)
      in c3)"

definition unable_to_locate :: string where
  "unable_to_locate = ''Unable to locate the Codex CLI. Set AMPLIFIER_CODEX_BIN or use --codex-bin.''"

text \<open>The \<open>for\<close> loop of \<open>resolve_binary\<close> and the \<open>raise\<close> after it.\<close>

fun resolve_loop :: "env \<Rightarrow> string list \<Rightarrow> state \<Rightarrow> (error + string) \<times> state" where
  "resolve_loop e [] s = (Inl (CodexUnavailableError unable_to_locate), s)"
| "resolve_loop e (candidate # rest) s =
     (case resolve_single_candidate e candidate s of
        (Inl x, s') \<Rightarrow> (Inl x, s')
      | (Inr binary, s') \<Rightarrow>
          if truthy binary then (Inr (the binary), s'\<lparr>cached_binary := binary\<rparr>)
          else resolve_loop e rest s')"

text \<open>\<open>CodexCLI.resolve_binary\<close>.\<close>

definition resolve_binary :: "env \<Rightarrow> codex_cli \<Rightarrow> state \<Rightarrow> (error + string) \<times> state" where
  "resolve_binary e cli s =
     (if truthy (cached_binary s) then (Inr (the (cached_binary s)), s)
      else resolve_loop e (candidates cli) s)"

subsection \<open>Sandbox helpers\<close>

text \<open>\<open>CodexCLI.resolve_sandbox\<close>.\<close>

definition resolve_sandbox ::
  "env \<Rightarrow> codex_cli \<Rightarrow> string option \<Rightarrow> state \<Rightarrow> (error + string) \<times> state" where
  "resolve_sandbox e cli sandbox_override s =
     (let sandbox_source = (if truthy sandbox_override then sandbox_override
                            else sandbox (settings cli))
      in case sandbox_source of
           None \<Rightarrow>
             (Inl (CodexSandboxError
                ''Sandbox directory is not configured. Use --sandbox or AMPLIFIER_CODEX_SANDBOX.''), s)
         | Some src \<Rightarrow>
             (let sandbox_path = canon e src
              in case mkdir_parents_exist_ok e sandbox_path s of
                   Inl exc \<Rightarrow>
                     (Inl (CodexSandboxError
                        (''Unable to create sandbox directory '' @ [CHR 0x27] @ sandbox_path @
                         [CHR 0x27] @ '': '' @ exc)), s)
                 | Inr s' \<Rightarrow>
                     if \<not> is_dir s' sandbox_path then
                       (Inl (CodexSandboxError
                          (''Sandbox path '' @ [CHR 0x27] @ sandbox_path @ [CHR 0x27] @
                           '' is not a directory'')), s')
                     else (Inr sandbox_path, s')))"

subsection \<open>Execution helpers\<close>

text \<open>\<open>mode or self.settings.default_mode or "suggest"\<close>.\<close>

definition effective_mode :: "codex_cli \<Rightarrow> string option \<Rightarrow> string" where
  "effective_mode cli m =
     (if truthy m then the m
      else if default_mode (settings cli) \<noteq> [] then default_mode (settings cli)
      else ''suggest'')"

text \<open>\<open>timeout if timeout is not None else self.settings.default_timeout\<close>.\<close>

definition effective_timeout :: "codex_cli \<Rightarrow> int option \<Rightarrow> int option" where
  "effective_timeout cli t = (case t of Some v \<Rightarrow> Some v | None \<Rightarrow> default_timeout (settings cli))"

text \<open>The command of \<open>execute\<close>, built as the code builds it: the fixed list first,
  then one extension after the other.\<close>

definition build_command ::
  "string \<Rightarrow> string \<Rightarrow> string \<Rightarrow> string option \<Rightarrow> bool \<Rightarrow> int option \<Rightarrow> string list" where
  "build_command binary mode sandbox_path ctx dry tmo =
     (let c0 = [binary, ''run'', ''--mode'', mode, ''--sandbox'', sandbox_path];
          c1 = (if truthy ctx then c0 @ [''--context'', the ctx] else c0);
          c2 = (if dry then c1 @ [''--dry-run''] else c1);
          c3 = (case tmo of Some t \<Rightarrow> c2 @ [''--timeout'', str_int t] | None \<Rightarrow> c2)
      in c3)"

text \<open>The prompt shown by \<open>execute\<close> when the run is not approved in advance.\<close>

definition prompt_text :: "string \<Rightarrow> string list \<Rightarrow> string" where
  "prompt_text mode cmd =
     (if mode = ''auto'' then ''Codex will run in AUTO mode. Proceed?''
      else ''Execute Codex in SUGGEST mode?'')
     @ [CHR 0x0A] @ command_display cmd @ [CHR 0x0A] @ ''Continue?''"

text \<open>The text appended to stderr in the handler of \<open>TimeoutExpired\<close>.\<close>

definition timeout_note :: "int option \<Rightarrow> string" where
  "timeout_note tmo =
     (case tmo of Some t \<Rightarrow> [CHR 0x0A] @ ''Timed out after '' @ str_int t @ ''s''
      | None \<Rightarrow> [])"

text \<open>
  The last part of \<open>execute\<close>: \<open>subprocess.run\<close> with the timeout and the mapping of its
  outcome. In the handler of \<open>TimeoutExpired\<close> the arguments are evaluated in order:
  \<open>exc.stdout or ""\<close> is the captured \<open>bytes\<close> or the empty string, and
  \<open>(exc.stderr or "") + "..."\<close> raises \<open>TypeError\<close> when stderr was captured, as it adds a
  \<open>str\<close> to \<open>bytes\<close>, and the exception leaves the handler uncaught; otherwise the text
  is added to the empty string.
\<close>

definition run_command ::
  "env \<Rightarrow> string list \<Rightarrow> int option \<Rightarrow> state \<Rightarrow> (error + codex_run_result) \<times> state" where
  "run_command e cmd tmo s =
     (case spawn e cmd tmo s of
        (TimeoutExpired pout perr, s') \<Rightarrow>
          if bytes_truthy perr then (Inl (Uncaught ''TypeError''), s')
          else if bytes_truthy pout then
            (Inl (CodexExecutionError_bytes_stdout cmd (- 1) (the pout) (timeout_note tmo)
                   ''Codex execution timed out''), s')
          else
            (Inl (CodexExecutionError_init cmd (- 1) [] (timeout_note tmo)
                   (Some ''Codex execution timed out'')), s')
      | (FileNotFoundError, s') \<Rightarrow>
          (Inl (CodexUnavailableError ''Codex binary disappeared during execution''), s')
      | (OtherOSError, s') \<Rightarrow> (Inl (Uncaught ''OSError''), s')
      | (Completed rc out err, s') \<Rightarrow>
          if rc \<noteq> 0 then (Inl (CodexExecutionError_init cmd rc out err None), s')
          else (Inr \<lparr>command = cmd, returncode = Some rc, stdout = out, stderr = err,
                     dry_run = False\<rparr>, s'))"

text \<open>Everything of \<open>execute\<close> after the two resolutions: mode check, command,
  confirmation, dry run, process.\<close>

definition execute_resolved ::
  "env \<Rightarrow> codex_cli \<Rightarrow> run_options \<Rightarrow> string \<Rightarrow> string \<Rightarrow> state
   \<Rightarrow> (error + codex_run_result) \<times> state" where
  "execute_resolved e cli opts binary sandbox_path s =
     (let mode = effective_mode cli (opt_mode opts)
      in if mode \<notin> {''suggest'', ''auto''} then
           (Inl (CodexExecutionError_init [binary] (- 1) [] []
                  (Some (''Unsupported Codex mode '' @ [CHR 0x27] @ mode @ [CHR 0x27] @ ''.''))), s)
         else
           (let tmo = effective_timeout cli (opt_timeout opts);
                cmd = build_command binary mode sandbox_path (opt_context opts)
                        (opt_dry_run opts) tmo;
                (confirmed, s') =
                   (if \<not> opt_approve opts then click_confirm e (prompt_text mode cmd) False s
                    else (True, s))
            in if \<not> confirmed then
                 (Inl (CodexExecutionCancelled ''Codex execution cancelled by user''), s')
               else if opt_dry_run opts then
                 (Inr \<lparr>command = cmd, returncode = None, stdout = [], stderr = [],
                       dry_run = True\<rparr>, s')
               else run_command e cmd tmo s'))"

text \<open>\<open>CodexCLI.execute\<close>.\<close>

definition execute ::
  "env \<Rightarrow> codex_cli \<Rightarrow> run_options \<Rightarrow> state \<Rightarrow> (error + codex_run_result) \<times> state" where
  "execute e cli opts s =
     (case resolve_binary e cli s of
        (Inl x, s1) \<Rightarrow> (Inl x, s1)
      | (Inr binary, s1) \<Rightarrow>
          (case resolve_sandbox e cli (opt_sandbox opts) s1 of
             (Inl x, s2) \<Rightarrow> (Inl x, s2)
           | (Inr sandbox_path, s2) \<Rightarrow> execute_resolved e cli opts binary sandbox_path s2))"

subsection \<open>Notions used to state the properties\<close>

text \<open>Where \<open>_resolve_single_candidate\<close> finds a candidate: the candidate itself when it
  is an absolute executable path, else what \<open>shutil.which\<close> finds, else nowhere.\<close>

definition locate :: "env \<Rightarrow> string \<Rightarrow> string option" where
  "locate e c =
     (if isabs c \<and> access_x e c then Some c
      else if truthy (which e c) then which e c
      else None)"

text \<open>The self-check of a path fails: the executable is not found when launched, or the
  process exits with a non-zero code.\<close>

definition self_check_fails :: "env \<Rightarrow> string \<Rightarrow> bool" where
  "self_check_fails e p =
     (case run_process e [p, ''--version''] None of
        Completed rc _ _ \<Rightarrow> rc \<noteq> 0
      | FileNotFoundError \<Rightarrow> True
      | _ \<Rightarrow> False)"

text \<open>The command, the prompt and the operator's consent of one call of \<open>execute\<close>, from
  its options and the two resolved paths.\<close>

definition execute_command :: "codex_cli \<Rightarrow> run_options \<Rightarrow> string \<Rightarrow> string \<Rightarrow> string list" where
  "execute_command cli opts binary sandbox_path =
     build_command binary (effective_mode cli (opt_mode opts)) sandbox_path
       (opt_context opts) (opt_dry_run opts) (effective_timeout cli (opt_timeout opts))"

definition execute_prompt :: "codex_cli \<Rightarrow> run_options \<Rightarrow> string \<Rightarrow> string \<Rightarrow> string" where
  "execute_prompt cli opts binary sandbox_path =
     prompt_text (effective_mode cli (opt_mode opts)) (execute_command cli opts binary sandbox_path)"

definition proceeds :: "env \<Rightarrow> codex_cli \<Rightarrow> run_options \<Rightarrow> string \<Rightarrow> string \<Rightarrow> bool" where
  "proceeds e cli opts binary sandbox_path =
     (opt_approve opts \<or> operator e (execute_prompt cli opts binary sandbox_path) = Yes)"

definition valid_mode :: "codex_cli \<Rightarrow> run_options \<Rightarrow> bool" where
  "valid_mode cli opts = (effective_mode cli (opt_mode opts) \<in> {''suggest'', ''auto''})"

subsection \<open>Example inputs\<close>

text \<open>
  A host where \<open>codex\<close> is on the search path as \<open>/usr/bin/codex\<close> and passes its
  self-check, and where \<open>/opt/codex\<close> is executable but fails its self-check with exit
  code 1. Every other command has the given outcome; the operator gives the given answer.
\<close>

definition ex_env :: "proc_outcome \<Rightarrow> reply \<Rightarrow> env" where
  "ex_env outcome answer =
     \<lparr>access_x = (\<lambda>p. p = ''/opt/codex''),
      which = (\<lambda>c. if c = ''codex'' then Some ''/usr/bin/codex'' else None),
      run_process = (\<lambda>cmd t.
         if cmd = [''/usr/bin/codex'', ''--version''] then Completed 0 ''codex 1.0'' []
         else if cmd = [''/opt/codex'', ''--version''] then Completed 1 [] '' boom ''
         else outcome),
      canon = (\<lambda>p. p),
      can_create = (\<lambda>p. True),
      operator = (\<lambda>p. answer)\<rparr>"

text \<open>A host with no Codex binary at all.\<close>

definition bare_env :: env where
  "bare_env =
     \<lparr>access_x = (\<lambda>p. False), which = (\<lambda>c. None),
      run_process = (\<lambda>cmd t. FileNotFoundError),
      canon = (\<lambda>p. p), can_create = (\<lambda>p. True), operator = (\<lambda>p. Blank)\<rparr>"

definition ex_cli :: "string option \<Rightarrow> codex_cli" where
  "ex_cli override =
     \<lparr>settings = \<lparr>bin = None, sandbox = Some ''/tmp/sbx'', default_mode = ''suggest'',
                   default_timeout = None\<rparr>,
      binary_override = override\<rparr>"

text \<open>An instance with three candidates: an override that is nowhere to be found, the
  configured binary \<open>/opt/codex\<close>, and \<open>codex\<close>.\<close>

definition ex_cli_chain :: codex_cli where
  "ex_cli_chain =
     \<lparr>settings = \<lparr>bin = Some ''/opt/codex'', sandbox = Some ''/tmp/sbx'',
                   default_mode = ''suggest'', default_timeout = None\<rparr>,
      binary_override = Some ''mycodex''\<rparr>"

text \<open>An instance with no override and no configured binary, with the given default mode
  and default timeout.\<close>

definition ex_cli_with :: "string \<Rightarrow> int option \<Rightarrow> codex_cli" where
  "ex_cli_with dm dt =
     \<lparr>settings = \<lparr>bin = None, sandbox = Some ''/tmp/sbx'', default_mode = dm,
                   default_timeout = dt\<rparr>,
      binary_override = None\<rparr>"

text \<open>A host whose working directory holds the executable \<open>./bin/codex\<close>, which passes its
  self-check. \<open>shutil.which\<close> returns a name with a directory part as it is given.\<close>

definition rel_env :: env where
  "rel_env =
     \<lparr>access_x = (\<lambda>p. p = ''./bin/codex''),
      which = (\<lambda>c. if c = ''./bin/codex'' then Some ''./bin/codex'' else None),
      run_process = (\<lambda>cmd t.
         if cmd = [''./bin/codex'', ''--version''] then Completed 0 ''codex 1.0'' []
         else FileNotFoundError),
      canon = (\<lambda>p. p), can_create = (\<lambda>p. True), operator = (\<lambda>p. Blank)\<rparr>"

definition ex_state :: state where
  "ex_state = \<lparr>cached_binary = None, nodes = Map.empty, spawned = [], prompted = []\<rparr>"

definition ex_opts :: "string option \<Rightarrow> bool \<Rightarrow> bool \<Rightarrow> int option \<Rightarrow> run_options" where
  "ex_opts m dry approve tmo =
     \<lparr>opt_mode = m, opt_context = Some ''fix it'', opt_sandbox = None, opt_dry_run = dry,
      opt_approve = approve, opt_timeout = tmo\<rparr>"

text \<open>The example state after the binary has been resolved, and after the sandbox has
  been resolved as well.\<close>

definition ex_state1 :: state where
  "ex_state1 = \<lparr>cached_binary = Some ''/usr/bin/codex'', nodes = Map.empty,
                 spawned = [[''/usr/bin/codex'', ''--version'']], prompted = []\<rparr>"

definition ex_state2 :: state where
  "ex_state2 = \<lparr>cached_binary = Some ''/usr/bin/codex'', nodes = [''/tmp/sbx'' \<mapsto> Dir],
                 spawned = [[''/usr/bin/codex'', ''--version'']], prompted = []\<rparr>"

section \<open>Auxiliary lemmas\<close>

subsection \<open>Binary resolution\<close>

lemma truthy_Some_the: "truthy x \<Longrightarrow> x = Some (the x) \<and> the x \<noteq> []"
  by (cases x) auto

lemma verify_binary_state:
  "verify_binary e b s = (r, s') \<Longrightarrow> s' = s\<lparr>spawned := spawned s @ [[b, ''--version'']]\<rparr>"
  by (auto simp: verify_binary_def spawn_def split: proc_outcome.splits if_splits)

lemma verify_binary_result:
  "verify_binary e b s = (Inr x, s') \<Longrightarrow> x = b"
  by (auto simp: verify_binary_def spawn_def split: proc_outcome.splits if_splits)

lemma locate_nonempty: "locate e c = Some p \<Longrightarrow> p \<noteq> []"
  by (auto simp: locate_def isabs_def split: if_splits dest: truthy_Some_the)

lemma resolve_single_candidate_locate:
  "resolve_single_candidate e c s =
     (case locate e c of
        None \<Rightarrow> (Inr None, s)
      | Some p \<Rightarrow>
          (case verify_binary e p s of
             (Inl x, s') \<Rightarrow> (Inl x, s')
           | (Inr b, s') \<Rightarrow> (Inr (Some b), s')))"
  by (auto simp: resolve_single_candidate_def locate_def dest: truthy_Some_the split: option.splits)

lemma resolve_loop_skip:
  "\<forall>c\<in>set pre. locate e c = None \<Longrightarrow> resolve_loop e (pre @ rest) s = resolve_loop e rest s"
  by (induction pre) (auto simp: resolve_single_candidate_locate)

lemma resolve_loop_first_located:
  assumes "locate e c = Some p"
  shows "resolve_loop e (c # post) s =
           (case verify_binary e p s of
              (Inl x, s') \<Rightarrow> (Inl x, s')
            | (Inr b, s') \<Rightarrow> (Inr b, s'\<lparr>cached_binary := Some b\<rparr>))"
  using assms locate_nonempty[OF assms]
  by (auto simp: resolve_single_candidate_locate split: prod.splits sum.splits dest: verify_binary_result)

lemma resolve_loop_cases:
  "resolve_loop e cs s = (r, s') \<Longrightarrow>
     (r = Inl (CodexUnavailableError unable_to_locate) \<and> s' = s) \<or>
     (\<exists>p x. r = Inl x \<and> s' = s\<lparr>spawned := spawned s @ [[p, ''--version'']]\<rparr>) \<or>
     (\<exists>p. p \<noteq> [] \<and> r = Inr p \<and>
           s' = s\<lparr>spawned := spawned s @ [[p, ''--version'']], cached_binary := Some p\<rparr>)"
proof (induction cs)
  case Nil
  then show ?case by simp
next
  case (Cons c cs)
  show ?case
  proof (cases "locate e c")
    case None
    with Cons show ?thesis by (simp add: resolve_single_candidate_locate)
  next
    case (Some p)
    obtain v t where v: "verify_binary e p s = (v, t)" by (cases "verify_binary e p s")
    have t: "t = s\<lparr>spawned := spawned s @ [[p, ''--version'']]\<rparr>"
      using verify_binary_state[OF v] .
    have eq: "(case verify_binary e p s of
              (Inl x, s') \<Rightarrow> (Inl x, s')
            | (Inr b, s') \<Rightarrow> (Inr b, s'\<lparr>cached_binary := Some b\<rparr>)) = (r, s')"
      using Cons.prems resolve_loop_first_located[OF Some, of cs s] by simp
    show ?thesis
    proof (cases v)
      case (Inl x)
      with eq v t show ?thesis by auto
    next
      case (Inr b)
      with v have "b = p" by (auto dest: verify_binary_result)
      with Inr eq v t locate_nonempty[OF Some] show ?thesis by auto
    qed
  qed
qed

lemma resolve_binary_cases:
  assumes "resolve_binary e cli s = (r, s')"
  shows "(\<exists>p. p \<noteq> [] \<and> r = Inr p \<and> cached_binary s = Some p \<and> s' = s) \<or>
     (r = Inl (CodexUnavailableError unable_to_locate) \<and> s' = s) \<or>
     (\<exists>p x. r = Inl x \<and> s' = s\<lparr>spawned := spawned s @ [[p, ''--version'']]\<rparr>) \<or>
     (\<exists>p. p \<noteq> [] \<and> r = Inr p \<and>
           s' = s\<lparr>spawned := spawned s @ [[p, ''--version'']], cached_binary := Some p\<rparr>)"
proof (cases "truthy (cached_binary s)")
  case True
  with assms truthy_Some_the[OF True] show ?thesis
    by (auto simp: resolve_binary_def)
next
  case False
  with assms have "resolve_loop e (candidates cli) s = (r, s')"
    by (simp add: resolve_binary_def)
  from resolve_loop_cases[OF this] show ?thesis by blast
qed

lemma resolve_binary_success:
  "resolve_binary e cli s = (Inr b, s') \<Longrightarrow> b \<noteq> [] \<and> cached_binary s' = Some b"
  by (drule resolve_binary_cases) auto

lemma resolve_binary_frame:
  "resolve_binary e cli s = (r, s') \<Longrightarrow> nodes s' = nodes s \<and> prompted s' = prompted s"
  by (drule resolve_binary_cases) auto

lemma resolve_binary_spawns:
  "resolve_binary e cli s = (r, s') \<Longrightarrow>
     spawned s' = spawned s \<or> (\<exists>p. spawned s' = spawned s @ [[p, ''--version'']])"
  by (drule resolve_binary_cases) auto

subsection \<open>Sandbox resolution\<close>

lemma resolve_sandbox_frame:
  "resolve_sandbox e cli ov s = (r, s') \<Longrightarrow>
     cached_binary s' = cached_binary s \<and> spawned s' = spawned s \<and> prompted s' = prompted s"
  by (auto simp: resolve_sandbox_def Let_def mkdir_parents_exist_ok_def
           split: option.splits sum.splits if_splits node.splits)

subsection \<open>Execution\<close>

lemma execute_after_resolution:
  assumes "resolve_binary e cli s = (Inr binary, s1)"
    and "resolve_sandbox e cli (opt_sandbox opts) s1 = (Inr sandbox_path, s2)"
  shows "execute e cli opts s = execute_resolved e cli opts binary sandbox_path s2"
  using assms by (simp add: execute_def)

lemma build_command_shape:
  "build_command binary mode sandbox_path ctx dry tmo =
     [binary, ''run'', ''--mode'', mode, ''--sandbox'', sandbox_path]
     @ (if truthy ctx then [''--context'', the ctx] else [])
     @ (if dry then [''--dry-run''] else [])
     @ (case tmo of Some t \<Rightarrow> [''--timeout'', str_int t] | None \<Rightarrow> [])"
  by (simp add: build_command_def Let_def split: option.splits)

lemma run_command_state:
  "run_command e cmd tmo s = (r, s') \<Longrightarrow> s' = s\<lparr>spawned := spawned s @ [cmd]\<rparr>"
  by (auto simp: run_command_def spawn_def split: proc_outcome.splits if_splits)

lemma run_command_result:
  "run_command e cmd tmo s = (Inr r, s') \<Longrightarrow>
     command r = cmd \<and> returncode r = Some 0 \<and> \<not> dry_run r"
  by (auto simp: run_command_def spawn_def split: proc_outcome.splits if_splits)

lemma run_command_error:
  "run_command e cmd tmo s = (Inl (CodexExecutionError c rc out err m), s') \<Longrightarrow> c = cmd"
  by (auto simp: run_command_def spawn_def CodexExecutionError_init_def
           split: proc_outcome.splits if_splits)

lemma run_command_error_bytes:
  "run_command e cmd tmo s = (Inl (CodexExecutionError_bytes_stdout c rc out err m), s')
   \<Longrightarrow> c = cmd"
  by (auto simp: run_command_def spawn_def CodexExecutionError_init_def
           split: proc_outcome.splits if_splits)

lemma execute_resolved_valid:
  assumes "effective_mode cli (opt_mode opts) \<in> {''suggest'', ''auto''}"
  shows "execute_resolved e cli opts binary sandbox_path s =
     (let mode = effective_mode cli (opt_mode opts);
          tmo = effective_timeout cli (opt_timeout opts);
          cmd = build_command binary mode sandbox_path (opt_context opts) (opt_dry_run opts) tmo;
          s' = (if opt_approve opts then s
                else s\<lparr>prompted := prompted s @ [(prompt_text mode cmd, False)]\<rparr>)
      in if \<not> opt_approve opts \<and> operator e (prompt_text mode cmd) \<noteq> Yes then
           (Inl (CodexExecutionCancelled ''Codex execution cancelled by user''), s')
         else if opt_dry_run opts then
           (Inr \<lparr>command = cmd, returncode = None, stdout = [], stderr = [], dry_run = True\<rparr>, s')
         else run_command e cmd tmo s')"
  using assms
  by (auto simp: execute_resolved_def Let_def click_confirm_def split: reply.splits)

lemma execute_resolved_invalid:
  assumes "effective_mode cli (opt_mode opts) \<notin> {''suggest'', ''auto''}"
  shows "execute_resolved e cli opts binary sandbox_path s =
     (Inl (CodexExecutionError [binary] (- 1) [] []
            (''Unsupported Codex mode '' @ [CHR 0x27] @ effective_mode cli (opt_mode opts)
             @ [CHR 0x27] @ ''.'')), s)"
  using assms
  by (simp add: execute_resolved_def Let_def CodexExecutionError_init_def)

lemma execute_valid:
  assumes rb: "resolve_binary e cli s = (Inr binary, s1)"
    and rs: "resolve_sandbox e cli (opt_sandbox opts) s1 = (Inr sandbox_path, s2)"
    and vm: "valid_mode cli opts"
  shows "execute e cli opts s =
     (let cmd = execute_command cli opts binary sandbox_path;
          s' = (if opt_approve opts then s2
                else s2\<lparr>prompted := prompted s2 @
                       [(execute_prompt cli opts binary sandbox_path, False)]\<rparr>)
      in if \<not> proceeds e cli opts binary sandbox_path then
           (Inl (CodexExecutionCancelled ''Codex execution cancelled by user''), s')
         else if opt_dry_run opts then
           (Inr \<lparr>command = cmd, returncode = None, stdout = [], stderr = [], dry_run = True\<rparr>, s')
         else run_command e cmd (effective_timeout cli (opt_timeout opts)) s')"
  using vm
  by (simp add: execute_after_resolution[OF rb rs] valid_mode_def execute_resolved_valid
       execute_command_def execute_prompt_def proceeds_def Let_def)

lemma execute_invalid:
  assumes rb: "resolve_binary e cli s = (Inr binary, s1)"
    and rs: "resolve_sandbox e cli (opt_sandbox opts) s1 = (Inr sandbox_path, s2)"
    and vm: "\<not> valid_mode cli opts"
  shows "execute e cli opts s =
     (Inl (CodexExecutionError [binary] (- 1) [] []
            (''Unsupported Codex mode '' @ [CHR 0x27] @ effective_mode cli (opt_mode opts)
             @ [CHR 0x27] @ ''.'')), s2)"
  using vm
  by (simp add: execute_after_resolution[OF rb rs] valid_mode_def execute_resolved_invalid)

lemma execute_Inr_resolved:
  assumes "execute e cli opts s = (Inr r, s')"
  shows "\<exists>binary s1 sandbox_path s2.
           resolve_binary e cli s = (Inr binary, s1) \<and>
           resolve_sandbox e cli (opt_sandbox opts) s1 = (Inr sandbox_path, s2) \<and>
           valid_mode cli opts"
proof -
  obtain rb s1 where rb: "resolve_binary e cli s = (rb, s1)"
    by (cases "resolve_binary e cli s")
  obtain rs s2 where rs: "resolve_sandbox e cli (opt_sandbox opts) s1 = (rs, s2)"
    by (cases "resolve_sandbox e cli (opt_sandbox opts) s1")
  from assms rb obtain binary where b: "rb = Inr binary"
    by (cases rb) (auto simp: execute_def)
  from assms rb rs b obtain sandbox_path where sp: "rs = Inr sandbox_path"
    by (cases rs) (auto simp: execute_def)
  have "valid_mode cli opts"
  proof (rule ccontr)
    assume "\<not> valid_mode cli opts"
    from execute_invalid[OF rb[unfolded b] rs[unfolded sp] this] assms show False by simp
  qed
  with rb rs b sp show ?thesis by blast
qed

lemma execute_result_cases:
  assumes "execute e cli opts s = (Inr r, s')"
  shows "(dry_run r \<and> returncode r = None \<and> opt_dry_run opts) \<or>
         (\<not> dry_run r \<and> returncode r = Some 0 \<and> \<not> opt_dry_run opts)"
proof -
  from execute_Inr_resolved[OF assms] obtain binary s1 sandbox_path s2 where
    rb: "resolve_binary e cli s = (Inr binary, s1)" and
    rs: "resolve_sandbox e cli (opt_sandbox opts) s1 = (Inr sandbox_path, s2)" and
    vm: "valid_mode cli opts" by blast
  from assms show ?thesis
    unfolding execute_valid[OF rb rs vm] Let_def
    by (auto split: if_splits dest: run_command_result)
qed

lemma execute_resolved_empty_mode:
  "execute_resolved e cli (opts\<lparr>opt_mode := Some []\<rparr>) binary sandbox_path s =
   execute_resolved e cli (opts\<lparr>opt_mode := None\<rparr>) binary sandbox_path s"
proof -
  have "effective_mode cli (opt_mode (opts\<lparr>opt_mode := Some []\<rparr>)) =
        effective_mode cli (opt_mode (opts\<lparr>opt_mode := None\<rparr>))"
    by (simp add: effective_mode_def)
  then show ?thesis
    unfolding execute_resolved_def by (simp add: Let_def cong: if_cong prod.case_cong)
qed

subsection \<open>The example inputs, evaluated\<close>

lemma ex_candidates: "candidates (ex_cli None) = [''codex'']"
  by (simp add: candidates_def ex_cli_def)

lemma ex_resolve_binary:
  "resolve_binary (ex_env outcome answer) (ex_cli None) ex_state = (Inr ''/usr/bin/codex'', ex_state1)"
  by (simp add: resolve_binary_def ex_candidates resolve_single_candidate_def verify_binary_def
        spawn_def isabs_def ex_env_def ex_state_def ex_state1_def)

lemma ex_resolve_sandbox:
  "resolve_sandbox (ex_env outcome answer) (ex_cli None) (opt_sandbox (ex_opts m dry approve tmo))
     ex_state1 = (Inr ''/tmp/sbx'', ex_state2)"
  by (simp add: resolve_sandbox_def mkdir_parents_exist_ok_def is_dir_def ex_env_def ex_cli_def
        ex_opts_def ex_state1_def ex_state2_def Let_def)

lemma str_int_5: "str_int 5 = ''5''"
  by code_simp

lemma ex_opts_simps:
  "opt_mode (ex_opts m dry approve tmo) = m"
  "opt_context (ex_opts m dry approve tmo) = Some ''fix it''"
  "opt_sandbox (ex_opts m dry approve tmo) = None"
  "opt_dry_run (ex_opts m dry approve tmo) = dry"
  "opt_approve (ex_opts m dry approve tmo) = approve"
  "opt_timeout (ex_opts m dry approve tmo) = tmo"
  by (simp_all add: ex_opts_def)

lemma ex_effective_mode: "effective_mode (ex_cli ov) m =
    (if truthy m then the m else ''suggest'')"
  by (simp add: effective_mode_def ex_cli_def)

lemma ex_execute_command:
  "execute_command (ex_cli ov) (ex_opts (Some ''auto'') dry approve (Some 5))
     ''/usr/bin/codex'' ''/tmp/sbx'' =
   [''/usr/bin/codex'', ''run'', ''--mode'', ''auto'', ''--sandbox'', ''/tmp/sbx'',
    ''--context'', ''fix it''] @ (if dry then [''--dry-run''] else []) @ [''--timeout'', ''5'']"
  by (simp add: execute_command_def build_command_shape effective_mode_def effective_timeout_def
        ex_cli_def ex_opts_def str_int_5)

lemma ex_valid_mode: "valid_mode (ex_cli ov) (ex_opts (Some ''auto'') dry approve tmo)"
  by (simp add: valid_mode_def ex_effective_mode ex_opts_simps)

lemma ex_run_process:
  "run_process (ex_env outcome answer) (''/usr/bin/codex'' # ''run'' # rest) t = outcome"
  by (simp add: ex_env_def)

lemma ex_state1_spawned: "spawned ex_state1 = [[''/usr/bin/codex'', ''--version'']]"
  by (simp add: ex_state1_def)

lemma ex_effective_timeout:
  "effective_timeout (ex_cli ov) tmo = tmo"
  by (simp add: effective_timeout_def ex_cli_def split: option.splits)

lemma ex_proceeds:
  "proceeds (ex_env outcome answer) (ex_cli ov) (ex_opts m dry approve tmo) b sp =
     (approve \<or> answer = Yes)"
  by (simp add: proceeds_def ex_env_def ex_opts_def)

lemma ex_resolve_sandbox_None:
  "resolve_sandbox (ex_env outcome answer) (ex_cli None) None ex_state1 =
     (Inr ''/tmp/sbx'', ex_state2)"
  using ex_resolve_sandbox[of outcome answer None False False None]
  by (simp add: ex_opts_simps)

lemma ex_operator: "operator (ex_env outcome answer) p = answer"
  by (simp add: ex_env_def)

lemma ex_state_prompted: "prompted ex_state = []"
  by (simp add: ex_state_def)

lemma ex_state2_spawned: "spawned ex_state2 = [[''/usr/bin/codex'', ''--version'']]"
  by (simp add: ex_state2_def)

lemma str_int_30: "str_int 30 = ''30''"
  by code_simp

lemma ex_with_candidates: "candidates (ex_cli_with dm dt) = [''codex'']"
  by (simp add: candidates_def ex_cli_with_def)

lemma ex_with_resolve_binary:
  "resolve_binary (ex_env outcome answer) (ex_cli_with dm dt) ex_state =
     (Inr ''/usr/bin/codex'', ex_state1)"
  by (simp add: resolve_binary_def ex_with_candidates resolve_single_candidate_def
        verify_binary_def spawn_def isabs_def ex_env_def ex_state_def ex_state1_def)

lemma ex_with_resolve_sandbox:
  "resolve_sandbox (ex_env outcome answer) (ex_cli_with dm dt)
     (opt_sandbox (ex_opts m dry approve tmo)) ex_state1 = (Inr ''/tmp/sbx'', ex_state2)"
  by (simp add: resolve_sandbox_def mkdir_parents_exist_ok_def is_dir_def ex_env_def
        ex_cli_with_def ex_opts_def ex_state1_def ex_state2_def Let_def)

lemma ex_with_resolve_sandbox_None:
  "resolve_sandbox (ex_env outcome answer) (ex_cli_with dm dt) None ex_state1 =
     (Inr ''/tmp/sbx'', ex_state2)"
  using ex_with_resolve_sandbox[of outcome answer dm dt None False False None]
  by (simp add: ex_opts_simps)

lemma ex_with_settings:
  "default_mode (settings (ex_cli_with dm dt)) = dm"
  "default_timeout (settings (ex_cli_with dm dt)) = dt"
  by (simp_all add: ex_cli_with_def)

lemma resolve_binary_cached:
  assumes "resolve_binary e cli s = (Inr b, s')"
  shows "cached_binary s' = Some b \<and> resolve_binary e' cli s' = (Inr b, s')"
  using resolve_binary_success[OF assms] by (simp add: resolve_binary_def)

section \<open>The properties of the specification\<close>

text \<open>
  C8. The cache does what the property says: a successful \<open>resolve_binary\<close> stores its
  result in \<open>_cached_binary\<close>, and every later call returns that path and leaves the state,
  the log of spawned processes included, as it is (lemma \<open>resolve_binary_cached\<close>). The
  path is not always absolute, though, against the property and against the docstring of
  \<open>_resolve_single_candidate\<close> ("to an absolute executable path"): a candidate with a
  directory part is returned by \<open>shutil.which\<close> as it is given. With the override
  \<open>./bin/codex\<close> the relative path is verified, cached and returned again by the second
  call, on a host that has no binary any more, without any new process.
\<close>

theorem resolve_binary_caches_relative_path:
  "resolve_binary rel_env (ex_cli (Some ''./bin/codex'')) ex_state =
     (Inr ''./bin/codex'',
      ex_state\<lparr>spawned := [[''./bin/codex'', ''--version'']],
                cached_binary := Some ''./bin/codex''\<rparr>) \<and>
   \<not> isabs ''./bin/codex'' \<and>
   resolve_binary bare_env (ex_cli (Some ''./bin/codex''))
       (ex_state\<lparr>spawned := [[''./bin/codex'', ''--version'']],
                  cached_binary := Some ''./bin/codex''\<rparr>) =
     (Inr ''./bin/codex'',
      ex_state\<lparr>spawned := [[''./bin/codex'', ''--version'']],
                cached_binary := Some ''./bin/codex''\<rparr>)"
proof -
  have first: "resolve_binary rel_env (ex_cli (Some ''./bin/codex'')) ex_state =
     (Inr ''./bin/codex'',
      ex_state\<lparr>spawned := [[''./bin/codex'', ''--version'']],
                cached_binary := Some ''./bin/codex''\<rparr>)"
    by (simp add: resolve_binary_def candidates_def ex_cli_def resolve_single_candidate_def
          verify_binary_def spawn_def isabs_def rel_env_def ex_state_def)
  have rel: "\<not> isabs ''./bin/codex''"
    by (simp add: isabs_def)
  from first rel resolve_binary_cached[OF first, of bare_env] show ?thesis by simp
qed



text \<open>
  C10, as stated, fails: with the empty string as mode the call does fall back to the
  default of the settings, but the run proceeds only when that default is supported.
  With the default mode \<open>bogus\<close> the call is rejected with \<open>CodexExecutionError\<close>.
\<close>

theorem execute_empty_mode_counterexample:
  "effective_mode (ex_cli_with ''bogus'' None) (Some []) = ''bogus'' \<and>
   execute (ex_env OtherOSError Blank) (ex_cli_with ''bogus'' None)
       (ex_opts (Some []) False True None) ex_state =
     (Inl (CodexExecutionError [''/usr/bin/codex''] (- 1) [] []
             (''Unsupported Codex mode '' @ [CHR 0x27] @ ''bogus'' @ [CHR 0x27] @ ''.'')),
      ex_state2)"
proof -
  have em: "effective_mode (ex_cli_with ''bogus'' None) (Some []) = ''bogus''"
    by (simp add: effective_mode_def ex_with_settings)
  then have bad: "\<not> valid_mode (ex_cli_with ''bogus'' None) (ex_opts (Some []) False True None)"
    by (simp add: valid_mode_def ex_opts_simps)
  from execute_invalid[OF ex_with_resolve_binary ex_with_resolve_sandbox bad,
         of OtherOSError Blank] em
  show ?thesis by (simp add: ex_opts_simps)
qed

text \<open>
  C10, amended. With the mode given as the empty string, the effective mode is the
  default of the settings, or \<open>suggest\<close> when that is empty too; it is never the empty
  string, and \<open>execute\<close> behaves exactly as with no mode given. Once the binary and the
  sandbox are resolved, the run proceeds exactly when that fallback is \<open>suggest\<close> or
  \<open>auto\<close>: an approved dry run returns its result with the fallback as the mode of the
  command, an approved run spawns that command, a run that is not approved shows the
  prompt. With any other fallback \<open>execute\<close> raises \<open>CodexExecutionError\<close> naming the
  fallback.
\<close>

theorem execute_empty_mode_falls_back:
  assumes rb: "resolve_binary e cli s = (Inr binary, s1)"
    and rs: "resolve_sandbox e cli (opt_sandbox opts) s1 = (Inr sandbox_path, s2)"
  shows "let fallback = (if default_mode (settings cli) \<noteq> [] then default_mode (settings cli)
                         else ''suggest'');
             opts0 = opts\<lparr>opt_mode := Some []\<rparr>;
             cmd = [binary, ''run'', ''--mode'', fallback, ''--sandbox'', sandbox_path]
                   @ (if truthy (opt_context opts) then [''--context'', the (opt_context opts)] else [])
                   @ (if opt_dry_run opts then [''--dry-run''] else [])
                   @ (case (case opt_timeout opts of Some t \<Rightarrow> Some t
                            | None \<Rightarrow> default_timeout (settings cli)) of
                        Some t \<Rightarrow> [''--timeout'', str_int t] | None \<Rightarrow> [])
         in effective_mode cli (Some []) = fallback \<and> fallback \<noteq> [] \<and>
            execute e cli opts0 s = execute e cli (opts\<lparr>opt_mode := None\<rparr>) s \<and>
            (fallback \<in> {''suggest'', ''auto''} \<and> opt_approve opts \<and> opt_dry_run opts \<longrightarrow>
               execute e cli opts0 s =
                 (Inr \<lparr>command = cmd, returncode = None, stdout = [], stderr = [],
                       dry_run = True\<rparr>, s2)) \<and>
            (fallback \<in> {''suggest'', ''auto''} \<and> opt_approve opts \<and> \<not> opt_dry_run opts \<longrightarrow>
               spawned (snd (execute e cli opts0 s)) = spawned s1 @ [cmd]) \<and>
            (fallback \<in> {''suggest'', ''auto''} \<and> \<not> opt_approve opts \<longrightarrow>
               prompted (snd (execute e cli opts0 s)) =
                 prompted s @ [(prompt_text fallback cmd, False)]) \<and>
            (fallback \<notin> {''suggest'', ''auto''} \<longrightarrow>
               execute e cli opts0 s =
                 (Inl (CodexExecutionError [binary] (- 1) [] []
                         (''Unsupported Codex mode '' @ [CHR 0x27] @ fallback @ [CHR 0x27] @
                          ''.'')), s2))"
proof -
  let ?fb = "if default_mode (settings cli) \<noteq> [] then default_mode (settings cli)
             else ''suggest''"
  let ?o = "opts\<lparr>opt_mode := Some []\<rparr>"
  let ?cmd = "execute_command cli ?o binary sandbox_path"
  let ?tmo = "effective_timeout cli (opt_timeout ?o)"
  let ?s' = "if opt_approve ?o then s2
             else s2\<lparr>prompted := prompted s2 @
                    [(execute_prompt cli ?o binary sandbox_path, False)]\<rparr>"
  have rs': "resolve_sandbox e cli (opt_sandbox ?o) s1 = (Inr sandbox_path, s2)"
    using rs by simp
  have em: "effective_mode cli (opt_mode ?o) = ?fb"
    by (simp add: effective_mode_def)
  have fr: "prompted s2 = prompted s" "spawned s2 = spawned s1"
    using resolve_binary_frame[OF rb] resolve_sandbox_frame[OF rs] by simp_all
  have cmd: "?cmd = [binary, ''run'', ''--mode'', ?fb, ''--sandbox'', sandbox_path]
                   @ (if truthy (opt_context opts) then [''--context'', the (opt_context opts)] else [])
                   @ (if opt_dry_run opts then [''--dry-run''] else [])
                   @ (case (case opt_timeout opts of Some t \<Rightarrow> Some t
                            | None \<Rightarrow> default_timeout (settings cli)) of
                        Some t \<Rightarrow> [''--timeout'', str_int t] | None \<Rightarrow> [])"
    unfolding execute_command_def build_command_shape em
    by (simp add: effective_timeout_def)
  have pr: "execute_prompt cli ?o binary sandbox_path = prompt_text ?fb ?cmd"
    unfolding execute_prompt_def em ..
  obtain r t where rc: "run_command e ?cmd ?tmo ?s' = (r, t)"
    by (cases "run_command e ?cmd ?tmo ?s'")
  have t: "t = ?s'\<lparr>spawned := spawned ?s' @ [?cmd]\<rparr>"
    using run_command_state[OF rc] .
  have a: "effective_mode cli (Some []) = ?fb \<and> ?fb \<noteq> []"
    by (simp add: effective_mode_def)
  have b: "execute e cli ?o s = execute e cli (opts\<lparr>opt_mode := None\<rparr>) s"
    by (auto simp: execute_def execute_resolved_empty_mode split: prod.splits sum.splits)
  have c: "?fb \<in> {''suggest'', ''auto''} \<and> opt_approve opts \<and> opt_dry_run opts \<longrightarrow>
             execute e cli ?o s =
               (Inr \<lparr>command = ?cmd, returncode = None, stdout = [], stderr = [],
                     dry_run = True\<rparr>, s2)"
  proof (intro impI)
    assume h: "?fb \<in> {''suggest'', ''auto''} \<and> opt_approve opts \<and> opt_dry_run opts"
    then have vm: "valid_mode cli ?o" unfolding valid_mode_def em by blast
    from h show "execute e cli ?o s =
               (Inr \<lparr>command = ?cmd, returncode = None, stdout = [], stderr = [],
                     dry_run = True\<rparr>, s2)"
      by (simp add: execute_valid[OF rb rs' vm] Let_def proceeds_def)
  qed
  have d: "?fb \<in> {''suggest'', ''auto''} \<and> opt_approve opts \<and> \<not> opt_dry_run opts \<longrightarrow>
             spawned (snd (execute e cli ?o s)) = spawned s1 @ [?cmd]"
  proof (intro impI)
    assume h: "?fb \<in> {''suggest'', ''auto''} \<and> opt_approve opts \<and> \<not> opt_dry_run opts"
    then have vm: "valid_mode cli ?o" unfolding valid_mode_def em by blast
    from h rc t fr show "spawned (snd (execute e cli ?o s)) = spawned s1 @ [?cmd]"
      by (simp add: execute_valid[OF rb rs' vm] Let_def proceeds_def)
  qed
  have e: "?fb \<in> {''suggest'', ''auto''} \<and> \<not> opt_approve opts \<longrightarrow>
             prompted (snd (execute e cli ?o s)) = prompted s @ [(prompt_text ?fb ?cmd, False)]"
  proof (intro impI)
    assume h: "?fb \<in> {''suggest'', ''auto''} \<and> \<not> opt_approve opts"
    then have vm: "valid_mode cli ?o" unfolding valid_mode_def em by blast
    from h rc t fr pr
    show "prompted (snd (execute e cli ?o s)) = prompted s @ [(prompt_text ?fb ?cmd, False)]"
      by (auto simp: execute_valid[OF rb rs' vm] Let_def)
  qed
  have f: "?fb \<notin> {''suggest'', ''auto''} \<longrightarrow>
             execute e cli ?o s =
               (Inl (CodexExecutionError [binary] (- 1) [] []
                       (''Unsupported Codex mode '' @ [CHR 0x27] @ ?fb @ [CHR 0x27] @ ''.'')), s2)"
  proof (intro impI)
    assume h: "?fb \<notin> {''suggest'', ''auto''}"
    then have vm: "\<not> valid_mode cli ?o" unfolding valid_mode_def em by blast
    from execute_invalid[OF rb rs' vm] show "execute e cli ?o s =
               (Inl (CodexExecutionError [binary] (- 1) [] []
                       (''Unsupported Codex mode '' @ [CHR 0x27] @ ?fb @ [CHR 0x27] @ ''.'')), s2)"
      unfolding em .
  qed
  from a b c d e f show ?thesis
    unfolding Let_def cmd[symmetric] by blast
qed

theorem execute_empty_mode_falls_back_witness:
  "resolve_binary (ex_env OtherOSError Blank) (ex_cli_with [] (Some 30)) ex_state =
     (Inr ''/usr/bin/codex'', ex_state1) \<and>
   resolve_sandbox (ex_env OtherOSError Blank) (ex_cli_with [] (Some 30)) None ex_state1 =
     (Inr ''/tmp/sbx'', ex_state2) \<and>
   effective_mode (ex_cli_with [] (Some 30)) (Some []) = ''suggest'' \<and>
   execute (ex_env OtherOSError Blank) (ex_cli_with [] (Some 30))
       ((ex_opts (Some ''auto'') True True None)\<lparr>opt_mode := Some []\<rparr>) ex_state =
     (Inr \<lparr>command = [''/usr/bin/codex'', ''run'', ''--mode'', ''suggest'', ''--sandbox'',
                       ''/tmp/sbx'', ''--context'', ''fix it'', ''--dry-run'', ''--timeout'', ''30''],
           returncode = None, stdout = [], stderr = [], dry_run = True\<rparr>, ex_state2)"
  using execute_empty_mode_falls_back[OF ex_with_resolve_binary[of OtherOSError Blank "[]" "Some 30"]
          ex_with_resolve_sandbox[of OtherOSError Blank "[]" "Some 30" "Some ''auto''" True True None]]
  by (auto simp: Let_def ex_with_resolve_binary ex_with_resolve_sandbox_None ex_with_settings
        ex_opts_simps str_int_30)

text \<open>
  C2. Whenever \<open>execute\<close> gets as far as building a command (binary and sandbox resolved,
  mode supported), the command is the resolved binary, \<open>run\<close>, \<open>--mode\<close> and the mode
  (the given one, else the default of the settings, else \<open>suggest\<close>), \<open>--sandbox\<close> and the
  sandbox path, then \<open>--context\<close> and the context exactly when the context is non-empty,
  then \<open>--dry-run\<close> exactly when dry_run is set, then \<open>--timeout\<close> and the timeout exactly
  when there is one, the timeout being the explicit option and, without it, the default
  of the settings; and nothing else. Its first element is the resolved binary. This is
  the command of every result, the command carried by every execution error, and the
  only command the call may spawn after the resolution.
\<close>

theorem execute_command_shape:
  assumes rb: "resolve_binary e cli s = (Inr binary, s1)"
    and rs: "resolve_sandbox e cli (opt_sandbox opts) s1 = (Inr sandbox_path, s2)"
    and vm: "valid_mode cli opts"
  shows "let mode = (if truthy (opt_mode opts) then the (opt_mode opts)
                     else if default_mode (settings cli) \<noteq> [] then default_mode (settings cli)
                     else ''suggest'');
             timeout = (case opt_timeout opts of Some t \<Rightarrow> Some t
                        | None \<Rightarrow> default_timeout (settings cli));
             cmd = [binary, ''run'', ''--mode'', mode, ''--sandbox'', sandbox_path]
                   @ (if truthy (opt_context opts) then [''--context'', the (opt_context opts)] else [])
                   @ (if opt_dry_run opts then [''--dry-run''] else [])
                   @ (case timeout of Some t \<Rightarrow> [''--timeout'', str_int t] | None \<Rightarrow> [])
         in hd cmd = binary \<and>
            (\<forall>r. fst (execute e cli opts s) = Inr r \<longrightarrow> command r = cmd) \<and>
            (\<forall>c rc out err m. fst (execute e cli opts s) = Inl (CodexExecutionError c rc out err m)
                \<longrightarrow> c = cmd) \<and>
            (\<forall>c rc out err m.
                fst (execute e cli opts s) = Inl (CodexExecutionError_bytes_stdout c rc out err m)
                \<longrightarrow> c = cmd) \<and>
            (spawned (snd (execute e cli opts s)) = spawned s1 \<or>
             spawned (snd (execute e cli opts s)) = spawned s1 @ [cmd])"
proof -
  let ?cmd = "execute_command cli opts binary sandbox_path"
  let ?tmo = "effective_timeout cli (opt_timeout opts)"
  let ?s' = "if opt_approve opts then s2
             else s2\<lparr>prompted := prompted s2 @
                    [(execute_prompt cli opts binary sandbox_path, False)]\<rparr>"
  obtain r t where rc: "run_command e ?cmd ?tmo ?s' = (r, t)"
    by (cases "run_command e ?cmd ?tmo ?s'")
  have sp2: "spawned s2 = spawned s1"
    using resolve_sandbox_frame[OF rs] by simp
  have t: "spawned t = spawned s1 @ [?cmd]"
    using run_command_state[OF rc] sp2 by simp
  have res: "\<forall>x. r = Inr x \<longrightarrow> command x = ?cmd"
    using rc by (auto dest: run_command_result)
  have err: "\<forall>c rc out err m. r = Inl (CodexExecutionError c rc out err m) \<longrightarrow> c = ?cmd"
    using rc by (auto dest: run_command_error)
  have errb: "\<forall>c rc out err m. r = Inl (CodexExecutionError_bytes_stdout c rc out err m)
                \<longrightarrow> c = ?cmd"
    using rc by (auto dest: run_command_error_bytes)
  have "(\<forall>r. fst (execute e cli opts s) = Inr r \<longrightarrow> command r = ?cmd) \<and>
        (\<forall>c rc out err m. fst (execute e cli opts s) = Inl (CodexExecutionError c rc out err m)
            \<longrightarrow> c = ?cmd) \<and>
        (\<forall>c rc out err m.
            fst (execute e cli opts s) = Inl (CodexExecutionError_bytes_stdout c rc out err m)
            \<longrightarrow> c = ?cmd) \<and>
        (spawned (snd (execute e cli opts s)) = spawned s1 \<or>
         spawned (snd (execute e cli opts s)) = spawned s1 @ [?cmd])"
    unfolding execute_valid[OF rb rs vm] Let_def
    using rc t res err errb sp2 by auto
  then show ?thesis
    by (simp add: execute_command_def build_command_shape effective_mode_def
          effective_timeout_def Let_def)
qed

theorem execute_command_shape_witness:
  "resolve_binary (ex_env (Completed 0 ''ok'' []) Blank) (ex_cli_with ''auto'' (Some 30)) ex_state =
     (Inr ''/usr/bin/codex'', ex_state1) \<and>
   resolve_sandbox (ex_env (Completed 0 ''ok'' []) Blank) (ex_cli_with ''auto'' (Some 30)) None
     ex_state1 = (Inr ''/tmp/sbx'', ex_state2) \<and>
   valid_mode (ex_cli_with ''auto'' (Some 30)) (ex_opts None False True None) \<and>
   valid_mode (ex_cli_with ''auto'' (Some 30)) (ex_opts (Some ''suggest'') False True (Some 5)) \<and>
   fst (execute (ex_env (Completed 0 ''ok'' []) Blank) (ex_cli_with ''auto'' (Some 30))
          (ex_opts None False True None) ex_state) =
     Inr \<lparr>command = [''/usr/bin/codex'', ''run'', ''--mode'', ''auto'', ''--sandbox'', ''/tmp/sbx'',
                      ''--context'', ''fix it'', ''--timeout'', ''30''],
          returncode = Some 0, stdout = ''ok'', stderr = [], dry_run = False\<rparr> \<and>
   fst (execute (ex_env (Completed 0 ''ok'' []) Blank) (ex_cli_with ''auto'' (Some 30))
          (ex_opts (Some ''suggest'') False True (Some 5)) ex_state) =
     Inr \<lparr>command = [''/usr/bin/codex'', ''run'', ''--mode'', ''suggest'', ''--sandbox'',
                      ''/tmp/sbx'', ''--context'', ''fix it'', ''--timeout'', ''5''],
          returncode = Some 0, stdout = ''ok'', stderr = [], dry_run = False\<rparr>"
proof -
  let ?e = "ex_env (Completed 0 ''ok'' []) Blank"
  let ?cli = "ex_cli_with ''auto'' (Some 30)"
  let ?o1 = "ex_opts None False True None"
  let ?o2 = "ex_opts (Some ''suggest'') False True (Some 5)"
  have rb: "resolve_binary ?e ?cli ex_state = (Inr ''/usr/bin/codex'', ex_state1)"
    by (rule ex_with_resolve_binary)
  have rs1: "resolve_sandbox ?e ?cli (opt_sandbox ?o1) ex_state1 = (Inr ''/tmp/sbx'', ex_state2)"
    by (rule ex_with_resolve_sandbox)
  have rs2: "resolve_sandbox ?e ?cli (opt_sandbox ?o2) ex_state1 = (Inr ''/tmp/sbx'', ex_state2)"
    by (rule ex_with_resolve_sandbox)
  have vm1: "valid_mode ?cli ?o1"
    by (simp add: valid_mode_def effective_mode_def ex_with_settings ex_opts_simps)
  have vm2: "valid_mode ?cli ?o2"
    by (simp add: valid_mode_def effective_mode_def ex_with_settings ex_opts_simps)
  have r1: "\<exists>r. fst (execute ?e ?cli ?o1 ex_state) = Inr r \<and> returncode r = Some 0 \<and>
                 stdout r = ''ok'' \<and> stderr r = [] \<and> \<not> dry_run r"
    by (simp add: execute_valid[OF rb rs1 vm1] Let_def proceeds_def ex_opts_simps
          run_command_def spawn_def ex_run_process execute_command_def build_command_shape)
  have r2: "\<exists>r. fst (execute ?e ?cli ?o2 ex_state) = Inr r \<and> returncode r = Some 0 \<and>
                 stdout r = ''ok'' \<and> stderr r = [] \<and> \<not> dry_run r"
    by (simp add: execute_valid[OF rb rs2 vm2] Let_def proceeds_def ex_opts_simps
          run_command_def spawn_def ex_run_process execute_command_def build_command_shape)
  from r1 r2 execute_command_shape[OF rb rs1 vm1] execute_command_shape[OF rb rs2 vm2]
    rb ex_with_resolve_sandbox_None[of "Completed 0 ''ok'' []" Blank "''auto''" "Some 30"] vm1 vm2
  show ?thesis
    by (auto simp: Let_def ex_with_settings ex_opts_simps str_int_5 str_int_30)
qed

text \<open>
  C4. With dry_run set, once the binary and the sandbox are resolved, the mode is
  supported and the run is approved or confirmed, \<open>execute\<close> returns the result with the
  built command, no return code, empty streams and dry_run set, and spawns nothing after
  the resolution of the binary. In every result that \<open>execute\<close> returns, dry_run holds
  exactly when the return code is absent.
\<close>

theorem execute_dry_run:
  assumes rb: "resolve_binary e cli s = (Inr binary, s1)"
    and rs: "resolve_sandbox e cli (opt_sandbox opts) s1 = (Inr sandbox_path, s2)"
    and vm: "valid_mode cli opts"
    and ok: "proceeds e cli opts binary sandbox_path"
    and dry: "opt_dry_run opts"
  shows "fst (execute e cli opts s) =
           Inr \<lparr>command = execute_command cli opts binary sandbox_path, returncode = None,
                stdout = [], stderr = [], dry_run = True\<rparr> \<and>
         spawned (snd (execute e cli opts s)) = spawned s1 \<and>
         (\<forall>e' cli' opts' t r t'. execute e' cli' opts' t = (Inr r, t') \<longrightarrow>
            (dry_run r \<longleftrightarrow> returncode r = None))"
proof -
  have sp2: "spawned s2 = spawned s1"
    using resolve_sandbox_frame[OF rs] by simp
  have "\<forall>e' cli' opts' t r t'. execute e' cli' opts' t = (Inr r, t') \<longrightarrow>
          (dry_run r \<longleftrightarrow> returncode r = None)"
    by (auto dest: execute_result_cases)
  then show ?thesis
    using ok dry sp2 by (simp add: execute_valid[OF rb rs vm] Let_def)
qed

theorem execute_dry_run_witness:
  "resolve_binary (ex_env OtherOSError Yes) (ex_cli None) ex_state =
     (Inr ''/usr/bin/codex'', ex_state1) \<and>
   resolve_sandbox (ex_env OtherOSError Yes) (ex_cli None) None ex_state1 =
     (Inr ''/tmp/sbx'', ex_state2) \<and>
   valid_mode (ex_cli None) (ex_opts (Some ''auto'') True False (Some 5)) \<and>
   proceeds (ex_env OtherOSError Yes) (ex_cli None) (ex_opts (Some ''auto'') True False (Some 5))
     ''/usr/bin/codex'' ''/tmp/sbx'' \<and>
   fst (execute (ex_env OtherOSError Yes) (ex_cli None)
          (ex_opts (Some ''auto'') True False (Some 5)) ex_state) =
     Inr \<lparr>command = [''/usr/bin/codex'', ''run'', ''--mode'', ''auto'', ''--sandbox'', ''/tmp/sbx'',
                      ''--context'', ''fix it'', ''--dry-run'', ''--timeout'', ''5''],
          returncode = None, stdout = [], stderr = [], dry_run = True\<rparr> \<and>
   spawned (snd (execute (ex_env OtherOSError Yes) (ex_cli None)
                   (ex_opts (Some ''auto'') True False (Some 5)) ex_state)) =
     [[''/usr/bin/codex'', ''--version'']]"
  using execute_dry_run[OF ex_resolve_binary[of OtherOSError Yes]
          ex_resolve_sandbox[of OtherOSError Yes "Some ''auto''" True False "Some 5"]
          ex_valid_mode[of None True False "Some 5"]]
  by (simp add: ex_resolve_binary ex_resolve_sandbox_None ex_valid_mode ex_proceeds
        ex_opts_simps ex_execute_command ex_state1_spawned)

text \<open>
  C6, as stated, fails: the error raised on a non-zero exit does carry a message that the
  process did not produce. The \<open>raise\<close> passes none, and the constructor of
  \<open>CodexExecutionError\<close> then sets the message to its default text. Here the process
  exits with 2 and writes \<open>fatal: no repo\<close> to stderr.
\<close>

theorem execute_nonzero_exit_counterexample:
  "fst (execute (ex_env (Completed 2 [] ''fatal: no repo'') Yes) (ex_cli None)
          (ex_opts (Some ''auto'') False False (Some 5)) ex_state) =
     Inl (CodexExecutionError
            [''/usr/bin/codex'', ''run'', ''--mode'', ''auto'', ''--sandbox'', ''/tmp/sbx'',
             ''--context'', ''fix it'', ''--timeout'', ''5'']
            2 [] ''fatal: no repo'' ''Codex execution failed'') \<and>
   ''Codex execution failed'' \<noteq> []"
  using execute_valid[OF ex_resolve_binary[of "Completed 2 [] ''fatal: no repo''" Yes]
          ex_resolve_sandbox[of "Completed 2 [] ''fatal: no repo''" Yes
             "Some ''auto''" False False "Some 5"]
          ex_valid_mode[of None False False "Some 5"]]
  by (simp add: Let_def ex_opts_simps ex_effective_timeout ex_proceeds
        ex_execute_command run_command_def spawn_def ex_run_process
        CodexExecutionError_init_def)

text \<open>
  C6, amended. When the run is not a dry run and the spawned process completes with a
  non-zero exit code, \<open>execute\<close> raises \<open>CodexExecutionError\<close> with the command, that exit
  code and the captured stdout and stderr. No message is supplied for this failure (the
  error is built with the message argument \<open>None\<close>), so the error carries the
  constructor's fixed default message \<open>Codex execution failed\<close>.
\<close>

theorem execute_nonzero_exit:
  assumes rb: "resolve_binary e cli s = (Inr binary, s1)"
    and rs: "resolve_sandbox e cli (opt_sandbox opts) s1 = (Inr sandbox_path, s2)"
    and vm: "valid_mode cli opts"
    and ok: "proceeds e cli opts binary sandbox_path"
    and dry: "\<not> opt_dry_run opts"
    and run: "run_process e (execute_command cli opts binary sandbox_path)
                (effective_timeout cli (opt_timeout opts)) = Completed rc out err"
    and nz: "rc \<noteq> 0"
  shows "fst (execute e cli opts s) =
           Inl (CodexExecutionError_init (execute_command cli opts binary sandbox_path)
                  rc out err None) \<and>
         CodexExecutionError_init (execute_command cli opts binary sandbox_path) rc out err None =
           CodexExecutionError (execute_command cli opts binary sandbox_path) rc out err
             ''Codex execution failed''"
  using ok dry run nz
  by (simp add: execute_valid[OF rb rs vm] Let_def run_command_def spawn_def
        CodexExecutionError_init_def)

theorem execute_nonzero_exit_witness:
  "resolve_binary (ex_env (Completed 3 ''out'' ''err'') Blank) (ex_cli None) ex_state =
     (Inr ''/usr/bin/codex'', ex_state1) \<and>
   resolve_sandbox (ex_env (Completed 3 ''out'' ''err'') Blank) (ex_cli None) None ex_state1 =
     (Inr ''/tmp/sbx'', ex_state2) \<and>
   valid_mode (ex_cli None) (ex_opts (Some ''auto'') False True (Some 5)) \<and>
   proceeds (ex_env (Completed 3 ''out'' ''err'') Blank) (ex_cli None)
     (ex_opts (Some ''auto'') False True (Some 5)) ''/usr/bin/codex'' ''/tmp/sbx'' \<and>
   fst (execute (ex_env (Completed 3 ''out'' ''err'') Blank) (ex_cli None)
          (ex_opts (Some ''auto'') False True (Some 5)) ex_state) =
     Inl (CodexExecutionError
            [''/usr/bin/codex'', ''run'', ''--mode'', ''auto'', ''--sandbox'', ''/tmp/sbx'',
             ''--context'', ''fix it'', ''--timeout'', ''5'']
            3 ''out'' ''err'' ''Codex execution failed'')"
  using execute_nonzero_exit[OF ex_resolve_binary[of "Completed 3 ''out'' ''err''" Blank]
          ex_resolve_sandbox[of "Completed 3 ''out'' ''err''" Blank "Some ''auto''" False True "Some 5"]
          ex_valid_mode[of None False True "Some 5"], of 3 "''out''" "''err''"]
  by (simp add: ex_resolve_binary ex_resolve_sandbox_None ex_valid_mode ex_proceeds
        ex_opts_simps ex_execute_command ex_run_process ex_effective_timeout
        CodexExecutionError_init_def)

text \<open>
  C5. Once the binary and the sandbox are resolved and the mode is supported, the
  confirmation is skipped exactly when the run is approved in advance: no prompt is shown
  then, and otherwise exactly one prompt is shown, with the default answer \<open>False\<close>. The
  prompt is a wording that differs between \<open>auto\<close> and the other mode, a line with the
  shell-quoted command, and \<open>Continue?\<close>. Any answer but yes (no, or an empty line
  taking the default) raises \<open>CodexExecutionCancelled\<close>, and nothing is spawned after the
  resolution of the binary.
\<close>

theorem confirmation_gate:
  assumes rb: "resolve_binary e cli s = (Inr binary, s1)"
    and rs: "resolve_sandbox e cli (opt_sandbox opts) s1 = (Inr sandbox_path, s2)"
    and vm: "valid_mode cli opts"
  shows "(prompted (snd (execute e cli opts s)) = prompted s \<longleftrightarrow> opt_approve opts) \<and>
         (\<not> opt_approve opts \<longrightarrow>
            prompted (snd (execute e cli opts s)) =
              prompted s @ [(execute_prompt cli opts binary sandbox_path, False)]) \<and>
         execute_prompt cli opts binary sandbox_path =
           (if effective_mode cli (opt_mode opts) = ''auto''
            then ''Codex will run in AUTO mode. Proceed?''
            else ''Execute Codex in SUGGEST mode?'')
           @ [CHR 0x0A] @ join '' '' (map quote (execute_command cli opts binary sandbox_path))
           @ [CHR 0x0A] @ ''Continue?'' \<and>
         prompt_text ''auto'' c \<noteq> prompt_text ''suggest'' c \<and>
         (\<not> opt_approve opts \<and> operator e (execute_prompt cli opts binary sandbox_path) \<noteq> Yes \<longrightarrow>
            fst (execute e cli opts s) =
              Inl (CodexExecutionCancelled ''Codex execution cancelled by user'') \<and>
            spawned (snd (execute e cli opts s)) = spawned s1)"
proof -
  let ?cmd = "execute_command cli opts binary sandbox_path"
  let ?tmo = "effective_timeout cli (opt_timeout opts)"
  let ?p = "(execute_prompt cli opts binary sandbox_path, False)"
  let ?s' = "if opt_approve opts then s2 else s2\<lparr>prompted := prompted s2 @ [?p]\<rparr>"
  have fr: "prompted s2 = prompted s" "spawned s2 = spawned s1"
    using resolve_binary_frame[OF rb] resolve_sandbox_frame[OF rs] by simp_all
  obtain r t where rc: "run_command e ?cmd ?tmo ?s' = (r, t)"
    by (cases "run_command e ?cmd ?tmo ?s'")
  have t: "prompted t = prompted ?s'"
    using run_command_state[OF rc] by simp
  have pr: "prompted (snd (execute e cli opts s)) = prompted ?s'"
    unfolding execute_valid[OF rb rs vm] Let_def using rc t by auto
  have a: "prompted (snd (execute e cli opts s)) = prompted s \<longleftrightarrow> opt_approve opts"
    using pr fr by auto
  have b: "\<not> opt_approve opts \<longrightarrow>
            prompted (snd (execute e cli opts s)) = prompted s @ [?p]"
    using pr fr by auto
  have c: "execute_prompt cli opts binary sandbox_path =
           (if effective_mode cli (opt_mode opts) = ''auto''
            then ''Codex will run in AUTO mode. Proceed?''
            else ''Execute Codex in SUGGEST mode?'')
           @ [CHR 0x0A] @ join '' '' (map quote ?cmd) @ [CHR 0x0A] @ ''Continue?''"
    by (simp add: execute_prompt_def prompt_text_def command_display_def)
  have d: "prompt_text ''auto'' c \<noteq> prompt_text ''suggest'' c"
    by (simp add: prompt_text_def)
  have e: "\<not> opt_approve opts \<and> operator e (execute_prompt cli opts binary sandbox_path) \<noteq> Yes \<longrightarrow>
            fst (execute e cli opts s) =
              Inl (CodexExecutionCancelled ''Codex execution cancelled by user'') \<and>
            spawned (snd (execute e cli opts s)) = spawned s1"
    using fr by (simp add: execute_valid[OF rb rs vm] Let_def proceeds_def)
  from a b c d e show ?thesis by blast
qed

theorem confirmation_gate_witness:
  "resolve_binary (ex_env OtherOSError Blank) (ex_cli None) ex_state =
     (Inr ''/usr/bin/codex'', ex_state1) \<and>
   resolve_sandbox (ex_env OtherOSError Blank) (ex_cli None) None ex_state1 =
     (Inr ''/tmp/sbx'', ex_state2) \<and>
   valid_mode (ex_cli None) (ex_opts (Some ''auto'') False False (Some 5)) \<and>
   operator (ex_env OtherOSError Blank)
     (execute_prompt (ex_cli None) (ex_opts (Some ''auto'') False False (Some 5))
        ''/usr/bin/codex'' ''/tmp/sbx'') \<noteq> Yes \<and>
   prompted (snd (execute (ex_env OtherOSError Blank) (ex_cli None)
                    (ex_opts (Some ''auto'') False False (Some 5)) ex_state)) =
     [(''Codex will run in AUTO mode. Proceed?'' @ [CHR 0x0A] @
       ''/usr/bin/codex run --mode auto --sandbox /tmp/sbx --context '' @
          [CHR 0x27] @ ''fix it'' @ [CHR 0x27] @ '' --timeout 5'' @ [CHR 0x0A] @
       ''Continue?'', False)] \<and>
   fst (execute (ex_env OtherOSError Blank) (ex_cli None)
          (ex_opts (Some ''auto'') False False (Some 5)) ex_state) =
     Inl (CodexExecutionCancelled ''Codex execution cancelled by user'') \<and>
   spawned (snd (execute (ex_env OtherOSError Blank) (ex_cli None)
                   (ex_opts (Some ''auto'') False False (Some 5)) ex_state)) =
     [[''/usr/bin/codex'', ''--version'']]"
  using confirmation_gate[OF ex_resolve_binary[of OtherOSError Blank]
          ex_resolve_sandbox[of OtherOSError Blank "Some ''auto''" False False "Some 5"]
          ex_valid_mode[of None False False "Some 5"]]
  by (simp add: ex_resolve_binary ex_resolve_sandbox_None ex_valid_mode ex_opts_simps
        ex_execute_command ex_state1_spawned ex_operator ex_state_prompted ex_effective_mode
        quote_def safe_char_def)

text \<open>
  C3, as stated, fails: the mode is checked after the binary and the sandbox have been
  resolved. On a fresh instance the self-check \<open>/usr/bin/codex --version\<close> has been
  spawned by the time the unsupported mode \<open>bogus\<close> is rejected, and on a host with no
  binary the same call fails with \<open>CodexUnavailableError\<close>, not \<open>CodexExecutionError\<close>.
\<close>

theorem execute_unsupported_mode_counterexample:
  "effective_mode (ex_cli None) (opt_mode (ex_opts (Some ''bogus'') False True None)) = ''bogus'' \<and>
   execute (ex_env OtherOSError Blank) (ex_cli None) (ex_opts (Some ''bogus'') False True None)
       ex_state =
     (Inl (CodexExecutionError [''/usr/bin/codex''] (- 1) [] []
             (''Unsupported Codex mode '' @ [CHR 0x27] @ ''bogus'' @ [CHR 0x27] @ ''.'')),
      ex_state2) \<and>
   spawned ex_state = [] \<and>
   spawned ex_state2 = [[''/usr/bin/codex'', ''--version'']] \<and>
   fst (execute bare_env (ex_cli None) (ex_opts (Some ''bogus'') False True None) ex_state) =
     Inl (CodexUnavailableError unable_to_locate)"
proof -
  have bad: "\<not> valid_mode (ex_cli None) (ex_opts (Some ''bogus'') False True None)"
    by (simp add: valid_mode_def ex_effective_mode ex_opts_simps)
  have "resolve_binary bare_env (ex_cli None) ex_state =
          (Inl (CodexUnavailableError unable_to_locate), ex_state)"
    by (simp add: resolve_binary_def ex_candidates resolve_single_candidate_def isabs_def
          bare_env_def ex_state_def)
  then have "fst (execute bare_env (ex_cli None) (ex_opts (Some ''bogus'') False True None)
               ex_state) = Inl (CodexUnavailableError unable_to_locate)"
    by (simp add: execute_def)
  then show ?thesis
    using execute_invalid[OF ex_resolve_binary ex_resolve_sandbox bad, of OtherOSError Blank]
    by (simp add: ex_effective_mode ex_opts_simps ex_state2_spawned ex_state_def)
qed

text \<open>
  C3, amended. When the binary and the sandbox have been resolved and the effective mode
  (the given mode, else the default of the settings, else \<open>suggest\<close>) is neither
  \<open>suggest\<close> nor \<open>auto\<close>, \<open>execute\<close> raises \<open>CodexExecutionError\<close> with the command
  \<open>[binary]\<close>, return code -1, empty streams and a message naming the mode. No prompt is
  shown and the run command is not spawned: the only process the call may have spawned
  is the one self-check of the binary resolution.
\<close>

theorem execute_unsupported_mode:
  assumes rb: "resolve_binary e cli s = (Inr binary, s1)"
    and rs: "resolve_sandbox e cli (opt_sandbox opts) s1 = (Inr sandbox_path, s2)"
    and bad: "effective_mode cli (opt_mode opts) \<notin> {''suggest'', ''auto''}"
  shows "execute e cli opts s =
           (Inl (CodexExecutionError [binary] (- 1) [] []
                   (''Unsupported Codex mode '' @ [CHR 0x27] @ effective_mode cli (opt_mode opts)
                    @ [CHR 0x27] @ ''.'')), s2) \<and>
         prompted s2 = prompted s \<and>
         spawned s2 = spawned s1 \<and>
         (spawned s1 = spawned s \<or> (\<exists>p. spawned s1 = spawned s @ [[p, ''--version'']]))"
proof -
  have "\<not> valid_mode cli opts"
    using bad by (simp add: valid_mode_def)
  from execute_invalid[OF rb rs this] resolve_binary_frame[OF rb] resolve_sandbox_frame[OF rs]
    resolve_binary_spawns[OF rb]
  show ?thesis by simp
qed

theorem execute_unsupported_mode_witness:
  "resolve_binary (ex_env OtherOSError Yes) (ex_cli None) ex_state =
     (Inr ''/usr/bin/codex'', ex_state1) \<and>
   resolve_sandbox (ex_env OtherOSError Yes) (ex_cli None) None ex_state1 =
     (Inr ''/tmp/sbx'', ex_state2) \<and>
   effective_mode (ex_cli None) (Some ''AUTO'') \<notin> {''suggest'', ''auto''} \<and>
   execute (ex_env OtherOSError Yes) (ex_cli None) (ex_opts (Some ''AUTO'') False False None)
       ex_state =
     (Inl (CodexExecutionError [''/usr/bin/codex''] (- 1) [] []
             (''Unsupported Codex mode '' @ [CHR 0x27] @ ''AUTO'' @ [CHR 0x27] @ ''.'')),
      ex_state2) \<and>
   prompted ex_state2 = prompted ex_state"
  using execute_unsupported_mode[OF ex_resolve_binary[of OtherOSError Yes]
          ex_resolve_sandbox[of OtherOSError Yes "Some ''AUTO''" False False None]]
  by (simp add: ex_resolve_binary ex_resolve_sandbox_None ex_effective_mode ex_opts_simps)

text \<open>
  C7, as stated, fails: with a timeout of 5 seconds and nothing captured, the error's
  message is the fixed text \<open>Codex execution timed out\<close>, which does not mention the
  duration; the duration is in the stderr text that the error carries.
\<close>

theorem execute_timeout_counterexample:
  "fst (execute (ex_env (TimeoutExpired None None) Blank) (ex_cli None)
          (ex_opts (Some ''auto'') False True (Some 5)) ex_state) =
     Inl (CodexExecutionError
            [''/usr/bin/codex'', ''run'', ''--mode'', ''auto'', ''--sandbox'', ''/tmp/sbx'',
             ''--context'', ''fix it'', ''--timeout'', ''5'']
            (- 1) [] ([CHR 0x0A] @ ''Timed out after 5s'')
            ''Codex execution timed out'') \<and>
   CHR ''5'' \<notin> set ''Codex execution timed out''"
  using execute_valid[OF ex_resolve_binary[of "TimeoutExpired None None" Blank]
          ex_resolve_sandbox[of "TimeoutExpired None None" Blank
             "Some ''auto''" False True "Some 5"]
          ex_valid_mode[of None False True "Some 5"]]
  by (simp add: Let_def ex_opts_simps ex_effective_timeout str_int_5 ex_proceeds
        ex_execute_command run_command_def spawn_def ex_run_process
        CodexExecutionError_init_def timeout_note_def)

text \<open>
  C7, amended. When the spawned process exceeds the effective timeout and nothing was
  captured on stderr, \<open>execute\<close> raises \<open>CodexExecutionError\<close> with the command, return
  code -1, whatever partial stdout was captured (the empty string when there is none),
  a stderr text that is the line \<open>Timed out after <t>s\<close> with the effective timeout (the
  explicit option, else the default of the settings), and the fixed message
  \<open>Codex execution timed out\<close>: the duration is noted in stderr, not in the message.
\<close>

theorem execute_timeout:
  assumes rb: "resolve_binary e cli s = (Inr binary, s1)"
    and rs: "resolve_sandbox e cli (opt_sandbox opts) s1 = (Inr sandbox_path, s2)"
    and vm: "valid_mode cli opts"
    and ok: "proceeds e cli opts binary sandbox_path"
    and dry: "\<not> opt_dry_run opts"
    and run: "run_process e (execute_command cli opts binary sandbox_path)
                (effective_timeout cli (opt_timeout opts)) = TimeoutExpired pout perr"
    and noerr: "\<not> bytes_truthy perr"
  shows "let timeout = (case opt_timeout opts of Some t \<Rightarrow> Some t
                        | None \<Rightarrow> default_timeout (settings cli));
             note = (case timeout of
                       Some t \<Rightarrow> [CHR 0x0A] @ ''Timed out after '' @ str_int t @ ''s''
                     | None \<Rightarrow> [])
         in fst (execute e cli opts s) =
              Inl (if bytes_truthy pout
                   then CodexExecutionError_bytes_stdout
                          (execute_command cli opts binary sandbox_path) (- 1) (the pout) note
                          ''Codex execution timed out''
                   else CodexExecutionError
                          (execute_command cli opts binary sandbox_path) (- 1) [] note
                          ''Codex execution timed out'')"
proof -
  have "fst (execute e cli opts s) =
          Inl (if bytes_truthy pout
               then CodexExecutionError_bytes_stdout
                      (execute_command cli opts binary sandbox_path) (- 1) (the pout)
                      (timeout_note (effective_timeout cli (opt_timeout opts)))
                      ''Codex execution timed out''
               else CodexExecutionError
                      (execute_command cli opts binary sandbox_path) (- 1) []
                      (timeout_note (effective_timeout cli (opt_timeout opts)))
                      ''Codex execution timed out'')"
    using ok dry run noerr
    by (simp add: execute_valid[OF rb rs vm] Let_def run_command_def spawn_def
          CodexExecutionError_init_def)
  then show ?thesis
    by (simp add: Let_def timeout_note_def effective_timeout_def)
qed

theorem execute_timeout_witness:
  "resolve_binary (ex_env (TimeoutExpired (Some (Bytes ''so far'')) None) Yes)
     (ex_cli_with ''suggest'' (Some 30)) ex_state = (Inr ''/usr/bin/codex'', ex_state1) \<and>
   resolve_sandbox (ex_env (TimeoutExpired (Some (Bytes ''so far'')) None) Yes)
     (ex_cli_with ''suggest'' (Some 30)) None ex_state1 = (Inr ''/tmp/sbx'', ex_state2) \<and>
   valid_mode (ex_cli_with ''suggest'' (Some 30)) (ex_opts None False False None) \<and>
   proceeds (ex_env (TimeoutExpired (Some (Bytes ''so far'')) None) Yes)
     (ex_cli_with ''suggest'' (Some 30)) (ex_opts None False False None)
     ''/usr/bin/codex'' ''/tmp/sbx'' \<and>
   \<not> bytes_truthy None \<and>
   fst (execute (ex_env (TimeoutExpired (Some (Bytes ''so far'')) None) Yes)
          (ex_cli_with ''suggest'' (Some 30)) (ex_opts None False False None) ex_state) =
     Inl (CodexExecutionError_bytes_stdout
            [''/usr/bin/codex'', ''run'', ''--mode'', ''suggest'', ''--sandbox'', ''/tmp/sbx'',
             ''--context'', ''fix it'', ''--timeout'', ''30'']
            (- 1) (Bytes ''so far'') ([CHR 0x0A] @ ''Timed out after 30s'')
            ''Codex execution timed out'')"
proof -
  let ?e = "ex_env (TimeoutExpired (Some (Bytes ''so far'')) None) Yes"
  let ?cli = "ex_cli_with ''suggest'' (Some 30)"
  let ?o = "ex_opts None False False None"
  have rb: "resolve_binary ?e ?cli ex_state = (Inr ''/usr/bin/codex'', ex_state1)"
    by (rule ex_with_resolve_binary)
  have rs: "resolve_sandbox ?e ?cli (opt_sandbox ?o) ex_state1 = (Inr ''/tmp/sbx'', ex_state2)"
    by (rule ex_with_resolve_sandbox)
  have vm: "valid_mode ?cli ?o"
    by (simp add: valid_mode_def effective_mode_def ex_with_settings ex_opts_simps)
  have ok: "proceeds ?e ?cli ?o ''/usr/bin/codex'' ''/tmp/sbx''"
    by (simp add: proceeds_def ex_operator)
  have dry: "\<not> opt_dry_run ?o"
    by (simp add: ex_opts_simps)
  have cmd: "execute_command ?cli ?o ''/usr/bin/codex'' ''/tmp/sbx'' =
      [''/usr/bin/codex'', ''run'', ''--mode'', ''suggest'', ''--sandbox'', ''/tmp/sbx'',
       ''--context'', ''fix it'', ''--timeout'', ''30'']"
    by (simp add: execute_command_def build_command_shape effective_mode_def
          effective_timeout_def ex_with_settings ex_opts_simps str_int_30)
  have run: "run_process ?e (execute_command ?cli ?o ''/usr/bin/codex'' ''/tmp/sbx'')
               (effective_timeout ?cli (opt_timeout ?o)) =
             TimeoutExpired (Some (Bytes ''so far'')) None"
    unfolding cmd by (rule ex_run_process)
  have noerr: "\<not> bytes_truthy None"
    by simp
  from execute_timeout[OF rb rs vm ok dry run noerr] rb vm ok cmd
    ex_with_resolve_sandbox_None[of "TimeoutExpired (Some (Bytes ''so far'')) None" Yes
      "''suggest''" "Some 30"]
  show ?thesis
    by (simp add: Let_def ex_with_settings ex_opts_simps str_int_30)
qed

text \<open>
  The handler has a defect that the amended property leaves aside: when something was
  captured on stderr, the handler adds the note, a \<open>str\<close>, to the captured \<open>bytes\<close>,
  and \<open>execute\<close> ends with a \<open>TypeError\<close> instead of a \<open>CodexExecutionError\<close>.
\<close>

lemma execute_timeout_stderr_captured:
  assumes rb: "resolve_binary e cli s = (Inr binary, s1)"
    and rs: "resolve_sandbox e cli (opt_sandbox opts) s1 = (Inr sandbox_path, s2)"
    and vm: "valid_mode cli opts"
    and ok: "proceeds e cli opts binary sandbox_path"
    and dry: "\<not> opt_dry_run opts"
    and run: "run_process e (execute_command cli opts binary sandbox_path)
                (effective_timeout cli (opt_timeout opts)) = TimeoutExpired pout perr"
    and captured: "bytes_truthy perr"
  shows "fst (execute e cli opts s) = Inl (Uncaught ''TypeError'')"
  using ok dry run captured
  by (simp add: execute_valid[OF rb rs vm] Let_def run_command_def spawn_def)

lemma execute_timeout_stderr_captured_example:
  "fst (execute (ex_env (TimeoutExpired None (Some (Bytes ''warn''))) Blank) (ex_cli None)
          (ex_opts (Some ''auto'') False True (Some 5)) ex_state) = Inl (Uncaught ''TypeError'')"
  using execute_valid[OF ex_resolve_binary[of "TimeoutExpired None (Some (Bytes ''warn''))" Blank]
          ex_resolve_sandbox[of "TimeoutExpired None (Some (Bytes ''warn''))" Blank
             "Some ''auto''" False True "Some 5"]
          ex_valid_mode[of None False True "Some 5"]]
  by (simp add: Let_def ex_opts_simps ex_effective_timeout ex_proceeds
        ex_execute_command run_command_def spawn_def ex_run_process)

text \<open>
  C1, as stated, fails: a candidate whose self-check fails is not passed over.
  \<open>_verify_binary\<close> raises \<open>CodexUnavailableError\<close>, and neither
  \<open>_resolve_single_candidate\<close> nor the loop of \<open>resolve_binary\<close> catches it. With the
  candidates \<open>/opt/codex\<close> (self-check exits with 1) and \<open>codex\<close> (found as
  \<open>/usr/bin/codex\<close>, which passes its self-check), resolution fails on the first
  candidate and never tries the second.
\<close>

theorem resolve_binary_failed_check_counterexample:
  "candidates (ex_cli (Some ''/opt/codex'')) = [''/opt/codex'', ''codex''] \<and>
   self_check_fails (ex_env OtherOSError Blank) ''/opt/codex'' \<and>
   locate (ex_env OtherOSError Blank) ''codex'' = Some ''/usr/bin/codex'' \<and>
   fst (verify_binary (ex_env OtherOSError Blank) ''/usr/bin/codex'' ex_state) =
     Inr ''/usr/bin/codex'' \<and>
   resolve_binary (ex_env OtherOSError Blank) (ex_cli (Some ''/opt/codex'')) ex_state =
     (Inl (CodexUnavailableError
             (''Codex binary at '' @ [CHR 0x27] @ ''/opt/codex'' @ [CHR 0x27] @
              '' is not executable: boom'')),
      ex_state\<lparr>spawned := [[''/opt/codex'', ''--version'']]\<rparr>)"
  by (simp add: candidates_def ex_cli_def self_check_fails_def locate_def isabs_def
        resolve_binary_def resolve_single_candidate_def verify_binary_def spawn_def
        strip_def str_or_def is_space_def ex_env_def ex_state_def)

text \<open>
  C1, amended. Resolution passes over the candidates that cannot be located (neither an
  absolute executable path nor found on the search path), in priority order. The first
  candidate that is located decides: when its self-check is not found at launch or exits
  non-zero, \<open>resolve_binary\<close> fails at once with \<open>CodexUnavailableError\<close>, having spawned
  that one self-check and tried no later candidate; when its self-check exits with zero,
  its path is cached and returned. When no candidate can be located, \<open>resolve_binary\<close>
  fails with the \<open>CodexUnavailableError\<close> that names \<open>AMPLIFIER_CODEX_BIN\<close> and
  \<open>--codex-bin\<close>, having spawned nothing.
\<close>

theorem resolve_binary_first_located_decides:
  assumes nc: "\<not> truthy (cached_binary s)"
    and split: "candidates cli = pre @ c # post"
    and skipped: "\<forall>c'\<in>set pre. locate e c' = None"
    and loc: "locate e c = Some p"
  shows "(self_check_fails e p \<longrightarrow>
            (\<exists>msg. resolve_binary e cli s =
               (Inl (CodexUnavailableError msg),
                s\<lparr>spawned := spawned s @ [[p, ''--version'']]\<rparr>))) \<and>
         ((\<exists>out err. run_process e [p, ''--version''] None = Completed 0 out err) \<longrightarrow>
            resolve_binary e cli s =
              (Inr p, s\<lparr>spawned := spawned s @ [[p, ''--version'']], cached_binary := Some p\<rparr>)) \<and>
         ((\<forall>c'\<in>set (candidates cli'). locate e c' = None) \<longrightarrow>
            resolve_binary e cli' s = (Inl (CodexUnavailableError unable_to_locate), s))"
proof -
  have eq: "resolve_binary e cli s =
          (case verify_binary e p s of
             (Inl x, s') \<Rightarrow> (Inl x, s')
           | (Inr b, s') \<Rightarrow> (Inr b, s'\<lparr>cached_binary := Some b\<rparr>))"
    using nc split resolve_loop_skip[OF skipped, of "c # post" s]
      resolve_loop_first_located[OF loc, of post s]
    by (simp add: resolve_binary_def)
  have a: "self_check_fails e p \<longrightarrow>
            (\<exists>msg. resolve_binary e cli s =
               (Inl (CodexUnavailableError msg),
                s\<lparr>spawned := spawned s @ [[p, ''--version'']]\<rparr>))"
    unfolding eq
    by (auto simp: self_check_fails_def verify_binary_def spawn_def split: proc_outcome.splits)
  have b: "(\<exists>out err. run_process e [p, ''--version''] None = Completed 0 out err) \<longrightarrow>
            resolve_binary e cli s =
              (Inr p, s\<lparr>spawned := spawned s @ [[p, ''--version'']], cached_binary := Some p\<rparr>)"
    unfolding eq
    by (auto simp: verify_binary_def spawn_def)
  have c: "(\<forall>c'\<in>set (candidates cli'). locate e c' = None) \<longrightarrow>
            resolve_binary e cli' s = (Inl (CodexUnavailableError unable_to_locate), s)"
    using nc resolve_loop_skip[of "candidates cli'" e "[]" s]
    by (simp add: resolve_binary_def)
  from a b c show ?thesis by blast
qed

theorem resolve_binary_first_located_decides_witness:
  "\<not> truthy (cached_binary ex_state) \<and>
   candidates ex_cli_chain = [''mycodex''] @ ''/opt/codex'' # [''codex''] \<and>
   locate (ex_env OtherOSError Blank) ''mycodex'' = None \<and>
   locate (ex_env OtherOSError Blank) ''/opt/codex'' = Some ''/opt/codex'' \<and>
   self_check_fails (ex_env OtherOSError Blank) ''/opt/codex'' \<and>
   (\<exists>msg. resolve_binary (ex_env OtherOSError Blank) ex_cli_chain ex_state =
      (Inl (CodexUnavailableError msg),
       ex_state\<lparr>spawned := spawned ex_state @ [[''/opt/codex'', ''--version'']]\<rparr>))"
proof -
  have nc: "\<not> truthy (cached_binary ex_state)"
    by (simp add: ex_state_def)
  have split: "candidates ex_cli_chain = [''mycodex''] @ ''/opt/codex'' # [''codex'']"
    by (simp add: candidates_def ex_cli_chain_def)
  have skipped: "\<forall>c'\<in>set [''mycodex'']. locate (ex_env OtherOSError Blank) c' = None"
    by (simp add: locate_def isabs_def ex_env_def)
  have loc: "locate (ex_env OtherOSError Blank) ''/opt/codex'' = Some ''/opt/codex''"
    by (simp add: locate_def isabs_def ex_env_def)
  have fails: "self_check_fails (ex_env OtherOSError Blank) ''/opt/codex''"
    by (simp add: self_check_fails_def ex_env_def)
  from resolve_binary_first_located_decides[OF nc split skipped loc] fails nc split skipped loc
  show ?thesis by simp
qed

end
